theory Spec2Isabelle
  imports Complex_Main "HOL-Library.Word"
begin

section \<open>JavaScript values\<close>

text \<open>
  The server (\<^verbatim>\<open>src/server/index.js\<close>) works on values parsed from JSON. A string is a
  sequence of UTF-16 code units, a number is a double (here: \<open>NaN\<close>, the two infinities, or
  a finite value kept as the rational it denotes; \<open>-0\<close> is not told apart from \<open>0\<close>), an
  object is the list of its property definitions in definition order, where the last
  definition of a key is the one that counts (as in \<^verbatim>\<open>JSON.parse\<close> and in an object
  literal).
\<close>

type_synonym codeunit = "16 word"
type_synonym jsstring = "codeunit list"

definition str :: "string \<Rightarrow> jsstring" where
  "str s = map of_char s"

datatype jsnum = NaN | PosInf | NegInf | Fin rat

datatype jsval =
    JUndefined
  | JNull
  | JBool bool
  | JNum jsnum
  | JStr jsstring
  | JArr "jsval list"
  | JObj "(jsstring \<times> jsval) list"

type_synonym obj = "(jsstring \<times> jsval) list"

text \<open>A \<^verbatim>\<open>Date\<close> is its time value: milliseconds since the epoch, or \<open>None\<close> for an
  invalid date (time value \<open>NaN\<close>).\<close>

type_synonym date = "int option"

datatype datelike = Val jsval | Dat date

text \<open>What the code throws: \<^verbatim>\<open>new Error(message)\<close>, or a \<^verbatim>\<open>TypeError\<close> or
  \<^verbatim>\<open>RangeError\<close> raised by a built-in.\<close>

datatype error = Error string | TypeError | RangeError

definition bindE :: "error + 'a \<Rightarrow> ('a \<Rightarrow> error + 'b) \<Rightarrow> error + 'b" where
  "bindE m f = (case m of Inl e \<Rightarrow> Inl e | Inr x \<Rightarrow> f x)"

text \<open>\<^verbatim>\<open>xs.map(f)\<close> with a callback that can throw: the first exception ends the loop.\<close>

fun mapE :: "('a \<Rightarrow> error + 'b) \<Rightarrow> 'a list \<Rightarrow> error + 'b list" where
  "mapE f [] = Inr []"
| "mapE f (x # xs) = bindE (f x) (\<lambda>y. bindE (mapE f xs) (\<lambda>ys. Inr (y # ys)))"

text \<open>
  The built-ins whose results are fixed by the host (the ECMAScript number and date
  grammars, the Unicode tables, the time zone, the sorting algorithm) are parameters of
  the model:
  \<^item> \<open>strToNumber\<close>: \<^verbatim>\<open>Number(s)\<close> on a string;
  \<^item> \<open>numToString\<close>: \<^verbatim>\<open>n.toString()\<close> on a number;
  \<^item> \<open>dateParse\<close>: \<^verbatim>\<open>Date.parse(s)\<close>;
  \<^item> \<open>localMidnight\<close>: the time value after \<^verbatim>\<open>setHours(0, 0, 0, 0)\<close> on a valid date;
  \<^item> \<open>toISOString\<close>: \<^verbatim>\<open>toISOString()\<close> on a valid date;
  \<^item> \<open>toLowerCase\<close>: \<^verbatim>\<open>String.prototype.toLowerCase\<close>;
  \<^item> \<open>arraySort\<close>: \<^verbatim>\<open>Array.prototype.sort\<close> with a comparator, on an array of objects (the
    language fixes its result only for a comparator that is a consistent order); an
    exception the comparator throws is thrown by the sort.
\<close>

record runtime =
  strToNumber :: "jsstring \<Rightarrow> jsnum"
  numToString :: "jsnum \<Rightarrow> jsstring"
  dateParse :: "jsstring \<Rightarrow> date"
  localMidnight :: "int \<Rightarrow> date"
  toISOString :: "int \<Rightarrow> jsstring"
  toLowerCase :: "jsstring \<Rightarrow> jsstring"
  arraySort :: "(obj \<Rightarrow> obj \<Rightarrow> error + jsnum) \<Rightarrow> obj list \<Rightarrow> error + obj list"

subsection \<open>Property access and conversions\<close>

definition lookup :: "obj \<Rightarrow> jsstring \<Rightarrow> jsval option" where
  "lookup ps k = map_of (rev ps) k"

definition getProp :: "obj \<Rightarrow> jsstring \<Rightarrow> jsval" where
  "getProp ps k = (case lookup ps k of None \<Rightarrow> JUndefined | Some v \<Rightarrow> v)"

definition nullish :: "jsval \<Rightarrow> bool" where
  "nullish v \<longleftrightarrow> v = JUndefined \<or> v = JNull"

text \<open>\<^verbatim>\<open>a ?? b\<close>\<close>

definition orElse :: "jsval \<Rightarrow> jsval \<Rightarrow> jsval" where
  "orElse a b = (if nullish a then b else a)"

text \<open>
  \<^verbatim>\<open>v.toString()\<close>. On an array it is \<^verbatim>\<open>join(",")\<close>, where \<^verbatim>\<open>null\<close> and
  \<^verbatim>\<open>undefined\<close> elements give the empty string. A parsed object answers
  \<^verbatim>\<open>[object Object]\<close>, unless it has a property \<^verbatim>\<open>toString\<close> of its own, which (being
  JSON data) is not callable.
\<close>

fun toStringJS :: "runtime \<Rightarrow> jsval \<Rightarrow> error + jsstring"
  and joinJS :: "runtime \<Rightarrow> jsval list \<Rightarrow> error + jsstring"
  where
    "toStringJS rt JUndefined = Inl TypeError"
  | "toStringJS rt JNull = Inl TypeError"
  | "toStringJS rt (JBool b) = Inr (if b then str ''true'' else str ''false'')"
  | "toStringJS rt (JNum n) = Inr (numToString rt n)"
  | "toStringJS rt (JStr s) = Inr s"
  | "toStringJS rt (JArr xs) = joinJS rt xs"
  | "toStringJS rt (JObj ps) =
       (if lookup ps (str ''toString'') = None then Inr (str ''[object Object]'')
        else Inl TypeError)"
  | "joinJS rt [] = Inr []"
  | "joinJS rt (x # xs) =
       bindE (if x = JUndefined \<or> x = JNull then Inr [] else toStringJS rt x) (\<lambda>s.
         if xs = [] then Inr s
         else bindE (joinJS rt xs) (\<lambda>t. Inr (s @ str '','' @ t)))"

text \<open>\<^verbatim>\<open>ToPrimitive\<close>: an array or object becomes its string.\<close>

definition toPrimitive :: "runtime \<Rightarrow> jsval \<Rightarrow> error + jsval" where
  "toPrimitive rt v =
     (case v of
        JArr xs \<Rightarrow> bindE (toStringJS rt v) (\<lambda>s. Inr (JStr s))
      | JObj ps \<Rightarrow> bindE (toStringJS rt v) (\<lambda>s. Inr (JStr s))
      | _ \<Rightarrow> Inr v)"

text \<open>\<^verbatim>\<open>Number(v)\<close>\<close>

definition toNumber :: "runtime \<Rightarrow> jsval \<Rightarrow> error + jsnum" where
  "toNumber rt v =
     bindE (toPrimitive rt v) (\<lambda>p.
       case p of
         JUndefined \<Rightarrow> Inr NaN
       | JNull \<Rightarrow> Inr (Fin 0)
       | JBool b \<Rightarrow> Inr (Fin (if b then 1 else 0))
       | JNum n \<Rightarrow> Inr n
       | JStr s \<Rightarrow> Inr (strToNumber rt s)
       | _ \<Rightarrow> Inl TypeError)"

definition isFinite :: "jsnum \<Rightarrow> bool" where
  "isFinite n = (case n of Fin q \<Rightarrow> True | _ \<Rightarrow> False)"

text \<open>\<^verbatim>\<open>Math.round\<close> rounds to the nearest integer, a tie towards \<open>+\<infinity>\<close>.\<close>

definition mathRound :: "jsnum \<Rightarrow> jsnum" where
  "mathRound n = (case n of Fin q \<Rightarrow> Fin (of_int (round q)) | _ \<Rightarrow> n)"

fun mathMin :: "jsnum \<Rightarrow> jsnum \<Rightarrow> jsnum" where
  "mathMin NaN b = NaN"
| "mathMin a NaN = NaN"
| "mathMin NegInf b = NegInf"
| "mathMin a NegInf = NegInf"
| "mathMin PosInf b = b"
| "mathMin a PosInf = a"
| "mathMin (Fin p) (Fin q) = Fin (min p q)"

fun mathMax :: "jsnum \<Rightarrow> jsnum \<Rightarrow> jsnum" where
  "mathMax NaN b = NaN"
| "mathMax a NaN = NaN"
| "mathMax PosInf b = PosInf"
| "mathMax a PosInf = PosInf"
| "mathMax NegInf b = b"
| "mathMax a NegInf = a"
| "mathMax (Fin p) (Fin q) = Fin (max p q)"

subsection \<open>Strings\<close>

text \<open>The code units \<^verbatim>\<open>trim\<close> removes: ECMAScript's WhiteSpace and LineTerminator.\<close>

definition isWhiteSpace :: "codeunit \<Rightarrow> bool" where
  "isWhiteSpace c \<longleftrightarrow>
     c = 0x09 \<or> c = 0x0A \<or> c = 0x0B \<or> c = 0x0C \<or> c = 0x0D \<or> c = 0x20 \<or> c = 0xA0 \<or>
     c = 0x1680 \<or> (0x2000 \<le> c \<and> c \<le> 0x200A) \<or> c = 0x2028 \<or> c = 0x2029 \<or>
     c = 0x202F \<or> c = 0x205F \<or> c = 0x3000 \<or> c = 0xFEFF"

definition trim :: "jsstring \<Rightarrow> jsstring" where
  "trim s = rev (dropWhile isWhiteSpace (rev (dropWhile isWhiteSpace s)))"

text \<open>\<^verbatim>\<open>normalizeString(input, { fallback, maxLength, lowercase })\<close>\<close>

definition normalizeString ::
  "runtime \<Rightarrow> jsval \<Rightarrow> jsstring \<Rightarrow> nat \<Rightarrow> bool \<Rightarrow> error + jsstring" where
  "normalizeString rt input fallback maxLength lowercase =
     bindE (toStringJS rt (orElse input (JStr fallback))) (\<lambda>s.
       let value = trim s;
           limited = take maxLength value
       in Inr (if lowercase then toLowerCase rt limited else limited))"

subsection \<open>Dates\<close>

text \<open>\<^verbatim>\<open>TimeClip\<close>: a time value is an integer of magnitude at most \<open>8.64e15\<close>.\<close>

definition timeClip :: "jsnum \<Rightarrow> date" where
  "timeClip n =
     (case n of
        Fin q \<Rightarrow> if \<bar>q\<bar> > 8640000000000000 then None
                 else Some (if q < 0 then - \<lfloor>- q\<rfloor> else \<lfloor>q\<rfloor>)
      | _ \<Rightarrow> None)"

text \<open>\<^verbatim>\<open>new Date(x)\<close>: a date is copied; a string is parsed; any other value is
  converted to a number of milliseconds.\<close>

definition newDate :: "runtime \<Rightarrow> datelike \<Rightarrow> error + date" where
  "newDate rt x =
     (case x of
        Dat d \<Rightarrow> Inr d
      | Val v \<Rightarrow>
          bindE (toPrimitive rt v) (\<lambda>p.
            case p of
              JStr s \<Rightarrow> Inr (dateParse rt s)
            | _ \<Rightarrow> bindE (toNumber rt p) (\<lambda>n. Inr (timeClip n))))"

definition startOfDay :: "runtime \<Rightarrow> datelike \<Rightarrow> error + date" where
  "startOfDay rt dateLike =
     bindE (newDate rt dateLike) (\<lambda>d.
       Inr (case d of None \<Rightarrow> None | Some t \<Rightarrow> localMidnight rt t))"

text \<open>\<^verbatim>\<open>d.toISOString()\<close> throws a \<^verbatim>\<open>RangeError\<close> on an invalid date.\<close>

definition isoString :: "runtime \<Rightarrow> date \<Rightarrow> error + jsstring" where
  "isoString rt d = (case d of None \<Rightarrow> Inl RangeError | Some t \<Rightarrow> Inr (toISOString rt t))"

text \<open>\<^verbatim>\<open>getTime()\<close>\<close>

definition getTime :: "date \<Rightarrow> jsnum" where
  "getTime d = (case d of None \<Rightarrow> NaN | Some t \<Rightarrow> Fin (of_int t))"

text \<open>
  \<^verbatim>\<open>daysUntil\<close>: the difference of two time values divided by the milliseconds of a
  day, rounded. The quotient is taken exactly, not in double precision.
\<close>

definition daysUntil :: "runtime \<Rightarrow> datelike \<Rightarrow> datelike \<Rightarrow> error + jsnum" where
  "daysUntil rt expiryDate now =
     bindE (startOfDay rt now) (\<lambda>d1.
     bindE (startOfDay rt expiryDate) (\<lambda>d2.
       let today = getTime d1; expiry = getTime d2 in
       Inr (case (expiry, today) of
              (Fin e, Fin t) \<Rightarrow> mathRound (Fin ((e - t) / (24 * 60 * 60 * 1000)))
            | _ \<Rightarrow> NaN)))"

text \<open>Comparisons with a number are false on \<open>NaN\<close>.\<close>

definition numLess :: "jsnum \<Rightarrow> rat \<Rightarrow> bool" where
  "numLess n k = (case n of Fin q \<Rightarrow> q < k | NegInf \<Rightarrow> True | _ \<Rightarrow> False)"

definition numLessEq :: "jsnum \<Rightarrow> rat \<Rightarrow> bool" where
  "numLessEq n k = (case n of Fin q \<Rightarrow> q \<le> k | NegInf \<Rightarrow> True | _ \<Rightarrow> False)"

definition itemStatus :: "runtime \<Rightarrow> datelike \<Rightarrow> datelike \<Rightarrow> error + jsstring" where
  "itemStatus rt expiryDate now =
     bindE (daysUntil rt expiryDate now) (\<lambda>daysLeft.
       if numLess daysLeft 0 then Inr (str ''expired'')
       else if numLessEq daysLeft 7 then Inr (str ''expiring'')
       else Inr (str ''fresh''))"

section \<open>Normalisation\<close>

text \<open>
  \<^verbatim>\<open>normalizeItem(input, now)\<close>. \<open>uuid\<close> is what \<^verbatim>\<open>crypto.randomUUID()\<close> returns if it is
  called, which happens only when the input has no \<^verbatim>\<open>id\<close>. The first test lets through
  exactly the objects that are not arrays (\<^verbatim>\<open>null\<close> is falsy). The fields of the result
  are evaluated in the order of the object literal, so the first failing one decides
  the exception.
\<close>

definition normalizeItem :: "runtime \<Rightarrow> jsstring \<Rightarrow> jsval \<Rightarrow> date \<Rightarrow> error + obj" where
  "normalizeItem rt uuid input now =
     (case input of
        JObj props \<Rightarrow>
          bindE (newDate rt (Val (getProp props (str ''expiresOn'')))) (\<lambda>expiresOn.
            if expiresOn = None then Inl (Error ''expiresOn must be a valid ISO date value'')
            else
          bindE (normalizeString rt (getProp props (str ''name'')) [] 80 False) (\<lambda>name.
            if name = [] then Inl (Error ''name is required'')
            else
          bindE (toNumber rt (getProp props (str ''quantity''))) (\<lambda>quantityInput.
            let quantity =
                  (if isFinite quantityInput
                   then mathMax (Fin 1) (mathMin (Fin 999) (mathRound quantityInput))
                   else Fin 1)
            in
          bindE (normalizeString rt (getProp props (str ''category'')) (str ''general'') 40 True)
            (\<lambda>category.
          bindE (bindE (startOfDay rt (Dat expiresOn)) (isoString rt)) (\<lambda>expiresOnIso.
          bindE (normalizeString rt (getProp props (str ''notes'')) [] 240 False) (\<lambda>notes.
          bindE (if nullish (getProp props (str ''createdAt''))
                 then bindE (isoString rt now) (\<lambda>s. Inr (JStr s))
                 else Inr (getProp props (str ''createdAt''))) (\<lambda>createdAt.
          bindE (isoString rt now) (\<lambda>updatedAt.
            Inr [(str ''id'', orElse (getProp props (str ''id'')) (JStr uuid)),
                 (str ''name'', JStr name),
                 (str ''category'', JStr category),
                 (str ''quantity'', JNum quantity),
                 (str ''expiresOn'', JStr expiresOnIso),
                 (str ''notes'', JStr notes),
                 (str ''createdAt'', createdAt),
                 (str ''updatedAt'', JStr updatedAt)]))))))))
      | _ \<Rightarrow> Inl (Error ''item payload must be a JSON object''))"

section \<open>The store\<close>

text \<open>
  \<^verbatim>\<open>createJsonStore\<close> keeps the array \<^verbatim>\<open>items\<close> and rewrites the data file from it after
  every mutation. The array holds objects: the records \<^verbatim>\<open>normalizeItem\<close> made. \<open>dataFile\<close>
  is the array last written, if any.
\<close>

record store =
  items :: "obj list"
  dataFile :: "obj list option"

definition persist :: "store \<Rightarrow> store" where
  "persist st = st\<lparr>dataFile := Some (items st)\<rparr>"

definition list_items :: "store \<Rightarrow> obj list" where
  "list_items st = items st"

text \<open>An operation returns its result, or the exception it threw, and the store it leaves.\<close>

definition create ::
  "runtime \<Rightarrow> jsstring \<Rightarrow> jsval \<Rightarrow> date \<Rightarrow> store \<Rightarrow> (error + obj) \<times> store" where
  "create rt uuid rawItem now st =
     (case normalizeItem rt uuid rawItem now of
        Inl e \<Rightarrow> (Inl e, st)
      | Inr item \<Rightarrow> (Inr item, persist (st\<lparr>items := items st @ [item]\<rparr>)))"

text \<open>\<^verbatim>\<open>items.findIndex((item) => item.id === id)\<close>, for a string \<open>id\<close> (the route
  parameter); \<open>None\<close> stands for \<open>-1\<close>.\<close>

fun findIndex :: "obj list \<Rightarrow> jsstring \<Rightarrow> nat option" where
  "findIndex [] ident = None"
| "findIndex (item # rest) ident =
     (if getProp item (str ''id'') = JStr ident then Some 0
      else map_option Suc (findIndex rest ident))"

text \<open>The decimal name of an array index.\<close>

fun decimal :: "nat \<Rightarrow> jsstring" where
  "decimal n =
     (if n < 10 then [of_nat (48 + n)]
      else decimal (n div 10) @ [of_nat (48 + n mod 10)])"

declare decimal.simps [simp del]

text \<open>The own enumerable properties an object spread \<^verbatim>\<open>...v\<close> copies: those of an
  object, the elements of an array, the characters of a string, nothing otherwise.\<close>

definition ownProps :: "jsval \<Rightarrow> obj" where
  "ownProps v =
     (case v of
        JObj ps \<Rightarrow> ps
      | JArr xs \<Rightarrow> zip (map decimal [0..<length xs]) xs
      | JStr s \<Rightarrow> zip (map decimal [0..<length s]) (map (\<lambda>c. JStr [c]) s)
      | _ \<Rightarrow> [])"

text \<open>\<^verbatim>\<open>update\<close> returns \<^verbatim>\<open>null\<close> (here \<open>None\<close>) for an unknown id. The generator of ids
  is not reached, since the merged object has an \<^verbatim>\<open>id\<close>.\<close>

definition update ::
  "runtime \<Rightarrow> jsstring \<Rightarrow> jsval \<Rightarrow> date \<Rightarrow> store \<Rightarrow> (error + obj option) \<times> store" where
  "update rt ident patch now st =
     (case findIndex (items st) ident of
        None \<Rightarrow> (Inr None, st)
      | Some index \<Rightarrow>
          (case normalizeItem rt []
                  (JObj (ownProps (JObj (items st ! index)) @ ownProps patch @
                         [(str ''id'', JStr ident),
                          (str ''createdAt'', getProp (items st ! index) (str ''createdAt''))]))
                  now of
             Inl e \<Rightarrow> (Inl e, st)
           | Inr merged \<Rightarrow>
               (Inr (Some merged), persist (st\<lparr>items := (items st)[index := merged]\<rparr>))))"

definition remove :: "jsstring \<Rightarrow> store \<Rightarrow> bool \<times> store" where
  "remove ident st =
     (case findIndex (items st) ident of
        None \<Rightarrow> (False, st)
      | Some index \<Rightarrow>
          (True, persist (st\<lparr>items := take index (items st) @ drop (Suc index) (items st)\<rparr>)))"

subsection \<open>Start-up\<close>

text \<open>
  \<^verbatim>\<open>loadSeedItems\<close>. \<open>seed\<close> is the parsed content of the seed file, \<open>None\<close> when there is
  no such file; a content that is not an array gives no items. Each element is normalised
  at \<^verbatim>\<open>new Date(item.createdAt ?? Date.now())\<close>, where reading a property of \<^verbatim>\<open>null\<close>
  throws a \<^verbatim>\<open>TypeError\<close> and a value that is not an object has no \<^verbatim>\<open>createdAt\<close>. \<open>uuid i\<close>
  and \<open>clock i\<close> are what \<^verbatim>\<open>crypto.randomUUID()\<close> and \<^verbatim>\<open>Date.now()\<close> return for the
  element of index \<open>i\<close>, if they are called.
\<close>

definition seedCreatedAt :: "jsval \<Rightarrow> error + jsval" where
  "seedCreatedAt item =
     (case item of
        JUndefined \<Rightarrow> Inl TypeError
      | JNull \<Rightarrow> Inl TypeError
      | JObj props \<Rightarrow> Inr (getProp props (str ''createdAt''))
      | _ \<Rightarrow> Inr JUndefined)"

definition loadSeedItems ::
  "runtime \<Rightarrow> (nat \<Rightarrow> jsstring) \<Rightarrow> (nat \<Rightarrow> int) \<Rightarrow> jsval option \<Rightarrow> error + obj list" where
  "loadSeedItems rt uuid clock seed =
     (case seed of
        None \<Rightarrow> Inr []
      | Some parsed \<Rightarrow>
          (case parsed of
             JArr xs \<Rightarrow>
               mapE (\<lambda>(i, item).
                       bindE (seedCreatedAt item) (\<lambda>createdAt.
                       bindE (newDate rt (Val (orElse createdAt (JNum (Fin (of_int (clock i)))))))
                         (\<lambda>now. normalizeItem rt (uuid i) item now)))
                 (zip [0..<length xs] xs)
           | _ \<Rightarrow> Inr []))"

text \<open>
  \<^verbatim>\<open>init()\<close> where there is no data file yet: the items are the normalised seed items,
  and the data file is written. (A data file that is there is read as it is, and the
  seed file is not looked at.)
\<close>

definition init ::
  "runtime \<Rightarrow> (nat \<Rightarrow> jsstring) \<Rightarrow> (nat \<Rightarrow> int) \<Rightarrow> jsval option \<Rightarrow> error + store" where
  "init rt uuid clock seed =
     bindE (loadSeedItems rt uuid clock seed) (\<lambda>seedItems.
       Inr (persist \<lparr>items = seedItems, dataFile = None\<rparr>))"

subsection \<open>Sequences of operations\<close>

text \<open>A call of the store: \<^verbatim>\<open>create(rawItem, now)\<close> together with the id the generator
  would hand out, \<^verbatim>\<open>update(id, patch, now)\<close> or \<^verbatim>\<open>remove(id)\<close>. A call that throws
  leaves the store it had reached.\<close>

datatype op = Create jsstring jsval date | Update jsstring jsval date | Remove jsstring

definition applyOp :: "runtime \<Rightarrow> op \<Rightarrow> store \<Rightarrow> store" where
  "applyOp rt operation st =
     (case operation of
        Create uuid rawItem now \<Rightarrow> snd (create rt uuid rawItem now st)
      | Update ident patch now \<Rightarrow> snd (update rt ident patch now st)
      | Remove ident \<Rightarrow> snd (remove ident st))"

fun run :: "runtime \<Rightarrow> store \<Rightarrow> op list \<Rightarrow> store" where
  "run rt st [] = st"
| "run rt st (operation # rest) = run rt (applyOp rt operation st) rest"

definition ids :: "store \<Rightarrow> jsval list" where
  "ids st = map (\<lambda>item. getProp item (str ''id'')) (items st)"

text \<open>The id \<^verbatim>\<open>normalizeItem\<close> gives a new record: \<^verbatim>\<open>input.id ?? crypto.randomUUID()\<close>.\<close>

definition assignedId :: "jsstring \<Rightarrow> jsval \<Rightarrow> jsval" where
  "assignedId uuid rawItem =
     (case rawItem of
        JObj props \<Rightarrow> orElse (getProp props (str ''id'')) (JStr uuid)
      | _ \<Rightarrow> JStr uuid)"

text \<open>Every \<^verbatim>\<open>create\<close> of the sequence brings an id that the collection does not hold
  at that moment.\<close>

fun freshCreates :: "runtime \<Rightarrow> store \<Rightarrow> op list \<Rightarrow> bool" where
  "freshCreates rt st [] = True"
| "freshCreates rt st (operation # rest) =
     ((case operation of
         Create uuid rawItem now \<Rightarrow> assignedId uuid rawItem \<notin> set (ids st)
       | _ \<Rightarrow> True)
      \<and> freshCreates rt (applyOp rt operation st) rest)"

section \<open>The HTTP surface\<close>

definition toApiItem :: "runtime \<Rightarrow> obj \<Rightarrow> date \<Rightarrow> error + obj" where
  "toApiItem rt item now =
     bindE (daysUntil rt (Val (getProp item (str ''expiresOn''))) (Dat now)) (\<lambda>daysLeft.
     bindE (itemStatus rt (Val (getProp item (str ''expiresOn''))) (Dat now)) (\<lambda>status.
       Inr (ownProps (JObj item) @
            [(str ''daysLeft'', JNum daysLeft), (str ''status'', JStr status)])))"

record response =
  code :: nat
  body :: jsval

subsection \<open>Rate limiting\<close>

record bucket =
  windowStartMs :: int
  count :: int

record verdict =
  allowed :: bool
  remaining :: int

text \<open>The closure \<^verbatim>\<open>createRateLimiter\<close> returns, with its map \<^verbatim>\<open>buckets\<close> passed in and
  out.\<close>

definition limiter ::
  "int \<Rightarrow> int \<Rightarrow> (jsstring \<rightharpoonup> bucket) \<Rightarrow> jsstring \<Rightarrow> int \<Rightarrow> verdict \<times> (jsstring \<rightharpoonup> bucket)" where
  "limiter windowMs maxRequests buckets ip nowMs =
     (case buckets ip of
        None \<Rightarrow>
          (\<lparr>allowed = True, remaining = maxRequests - 1\<rparr>,
           buckets(ip \<mapsto> \<lparr>windowStartMs = nowMs, count = 1\<rparr>))
      | Some current \<Rightarrow>
          if nowMs - windowStartMs current \<ge> windowMs then
            (\<lparr>allowed = True, remaining = maxRequests - 1\<rparr>,
             buckets(ip \<mapsto> \<lparr>windowStartMs = nowMs, count = 1\<rparr>))
          else if count current \<ge> maxRequests then
            (\<lparr>allowed = False, remaining = 0\<rparr>, buckets)
          else
            (\<lparr>allowed = True, remaining = maxRequests - (count current + 1)\<rparr>,
             buckets(ip \<mapsto> current\<lparr>count := count current + 1\<rparr>)))"

text \<open>The requests of one address, one after the other, at the given clock readings.\<close>

fun serve ::
  "int \<Rightarrow> int \<Rightarrow> (jsstring \<rightharpoonup> bucket) \<Rightarrow> jsstring \<Rightarrow> int list \<Rightarrow> bool list \<times> (jsstring \<rightharpoonup> bucket)" where
  "serve windowMs maxRequests buckets ip [] = ([], buckets)"
| "serve windowMs maxRequests buckets ip (t # ts) =
     (let (v, buckets') = limiter windowMs maxRequests buckets ip t;
          (vs, buckets'') = serve windowMs maxRequests buckets' ip ts
      in (allowed v # vs, buckets''))"

text \<open>The middleware answers 429 to a request that is not allowed and lets the others
  through (\<open>None\<close>: \<^verbatim>\<open>next()\<close> is called).\<close>

definition rateLimitResponse :: "verdict \<Rightarrow> response option" where
  "rateLimitResponse result =
     (if \<not> allowed result
      then Some \<lparr>code = 429, body = JObj [(str ''error'', JStr (str ''Too many requests''))]\<rparr>
      else None)"

subsection \<open>Listing\<close>









subsection \<open>What the language promises of the host\<close>




section \<open>A host\<close>

text \<open>
  One host, for evaluating the model on concrete inputs: time zone UTC, and the
  built-ins on the part of their domain written out below, where they agree with
  ECMAScript: decimal integers for numbers (below \<open>10\<^sup>2\<^sup>1\<close> when printed), the ISO
  formats \<^verbatim>\<open>YYYY-MM-DD\<close> and \<^verbatim>\<open>YYYY-MM-DDTHH:mm:ss.sssZ\<close>, the latter also with an expanded
  year \<^verbatim>\<open>\<plusminus>YYYYYY\<close>, with a day that the month has for dates, Basic Latin, Latin-1 and
  U+0130 for lower case. Outside that part the values here are placeholders (\<open>NaN\<close>, an
  invalid date, the unchanged code unit). The sort is insertion sort.
\<close>

definition isDigit :: "codeunit \<Rightarrow> bool" where
  "isDigit c \<longleftrightarrow> 0x30 \<le> c \<and> c \<le> 0x39"

definition digitsValue :: "jsstring \<Rightarrow> nat" where
  "digitsValue s = foldl (\<lambda>acc c. 10 * acc + (unat c - 48)) 0 s"

definition parseDigits :: "jsstring \<Rightarrow> nat option" where
  "parseDigits s = (if s \<noteq> [] \<and> list_all isDigit s then Some (digitsValue s) else None)"

definition hostStrToNumber :: "jsstring \<Rightarrow> jsnum" where
  "hostStrToNumber s =
     (let t = trim s in
      if t = [] then Fin 0
      else if hd t = 0x2D then
        (case parseDigits (tl t) of None \<Rightarrow> NaN | Some n \<Rightarrow> Fin (- of_nat n))
      else if hd t = 0x2B then
        (case parseDigits (tl t) of None \<Rightarrow> NaN | Some n \<Rightarrow> Fin (of_nat n))
      else (case parseDigits t of None \<Rightarrow> NaN | Some n \<Rightarrow> Fin (of_nat n)))"

definition hostNumToString :: "jsnum \<Rightarrow> jsstring" where
  "hostNumToString n =
     (case n of
        NaN \<Rightarrow> str ''NaN''
      | PosInf \<Rightarrow> str ''Infinity''
      | NegInf \<Rightarrow> str ''-Infinity''
      | Fin q \<Rightarrow>
          if q = of_int \<lfloor>q\<rfloor> \<and> \<bar>q\<bar> < 10 ^ 21 then
            (if q < 0 then str ''-'' else []) @ decimal (nat \<bar>\<lfloor>q\<rfloor>\<bar>)
          else str ''NaN'')"

definition padLeft :: "nat \<Rightarrow> jsstring \<Rightarrow> jsstring" where
  "padLeft n s = replicate (n - length s) 0x30 @ s"

text \<open>Days since the epoch of a day of the proleptic Gregorian calendar, and back.\<close>

definition daysFromCivil :: "int \<Rightarrow> int \<Rightarrow> int \<Rightarrow> int" where
  "daysFromCivil y m d =
     (let y' = (if m \<le> 2 then y - 1 else y);
          era = y' div 400;
          yoe = y' - era * 400;
          doy = (153 * (if m > 2 then m - 3 else m + 9) + 2) div 5 + d - 1;
          doe = yoe * 365 + yoe div 4 - yoe div 100 + doy
      in era * 146097 + doe - 719468)"

text \<open>Back: the day of the era of 400 years is split into its century, its cycle of four
  years and its year, the year starting in March.\<close>

definition civilFromDays :: "int \<Rightarrow> int \<times> int \<times> int" where
  "civilFromDays z =
     (let z' = z + 719468;
          era = z' div 146097;
          doe = z' - era * 146097;
          c = min 3 (doe div 36524);
          r1 = doe - c * 36524;
          q = r1 div 1461;
          r2 = r1 - q * 1461;
          a = min 3 (r2 div 365);
          yoe = 100 * c + 4 * q + a;
          doy = r2 - a * 365;
          mp = (5 * doy + 2) div 153;
          d = doy - (153 * mp + 2) div 5 + 1;
          m = (if mp < 10 then mp + 3 else mp - 9)
      in (if m \<le> 2 then yoe + era * 400 + 1 else yoe + era * 400, m, d))"

definition hostToISOString :: "int \<Rightarrow> jsstring" where
  "hostToISOString t =
     (let (y, m, d) = civilFromDays (t div 86400000);
          ms = t mod 86400000;
          two = (\<lambda>k. padLeft 2 (decimal (nat k)))
      in (if 0 \<le> y \<and> y \<le> 9999 then padLeft 4 (decimal (nat y))
          else (if y < 0 then str ''-'' else str ''+'') @ padLeft 6 (decimal (nat \<bar>y\<bar>)))
         @ str ''-'' @ two m @ str ''-'' @ two d @ str ''T''
         @ two (ms div 3600000) @ str '':'' @ two (ms div 60000 mod 60) @ str '':''
         @ two (ms div 1000 mod 60) @ str ''.'' @ padLeft 3 (decimal (nat (ms mod 1000)))
         @ str ''Z'')"

definition daysInMonth :: "int \<Rightarrow> int \<Rightarrow> int" where
  "daysInMonth y m =
     (if m = 2 then (if y mod 4 = 0 \<and> (y mod 100 \<noteq> 0 \<or> y mod 400 = 0) then 29 else 28)
      else if m = 4 \<or> m = 6 \<or> m = 9 \<or> m = 11 then 30 else 31)"

definition parseDay :: "jsstring \<Rightarrow> int option" where
  "parseDay s =
     (if length s = 10 \<and> s ! 4 = 0x2D \<and> s ! 7 = 0x2D then
        (case (parseDigits (take 4 s), parseDigits (take 2 (drop 5 s)),
               parseDigits (take 2 (drop 8 s))) of
           (Some y, Some m, Some d) \<Rightarrow>
             if 1 \<le> m \<and> m \<le> 12 \<and> 1 \<le> d \<and> int d \<le> daysInMonth (int y) (int m)
             then Some (daysFromCivil (int y) (int m) (int d)) else None
         | _ \<Rightarrow> None)
      else None)"

text \<open>A day with an expanded year: a sign and six digits, \<^verbatim>\<open>-000000\<close> excepted.\<close>

definition parseExpandedDay :: "jsstring \<Rightarrow> int option" where
  "parseExpandedDay s =
     (if length s = 13 \<and> (s ! 0 = 0x2B \<or> s ! 0 = 0x2D) \<and> s ! 7 = 0x2D \<and> s ! 10 = 0x2D then
        (case (parseDigits (take 6 (drop 1 s)), parseDigits (take 2 (drop 8 s)),
               parseDigits (take 2 (drop 11 s))) of
           (Some y, Some m, Some d) \<Rightarrow>
             let year = (if s ! 0 = 0x2D then - int y else int y) in
             if s ! 0 = 0x2D \<and> y = 0 then None
             else if 1 \<le> m \<and> m \<le> 12 \<and> 1 \<le> d \<and> int d \<le> daysInMonth year (int m)
             then Some (daysFromCivil year (int m) (int d)) else None
         | _ \<Rightarrow> None)
      else None)"

definition parseTime :: "jsstring \<Rightarrow> int option" where
  "parseTime s =
     (if length s = 14 \<and> s ! 0 = 0x54 \<and> s ! 3 = 0x3A \<and> s ! 6 = 0x3A \<and> s ! 9 = 0x2E
         \<and> s ! 13 = 0x5A then
        (case (parseDigits (take 2 (drop 1 s)), parseDigits (take 2 (drop 4 s)),
               parseDigits (take 2 (drop 7 s)), parseDigits (take 3 (drop 10 s))) of
           (Some h, Some mi, Some sec, Some f) \<Rightarrow>
             if h \<le> 23 \<and> mi \<le> 59 \<and> sec \<le> 59
             then Some (int (((h * 60 + mi) * 60 + sec) * 1000 + f)) else None
         | _ \<Rightarrow> None)
      else None)"

definition hostDateParse :: "jsstring \<Rightarrow> date" where
  "hostDateParse s =
     (if length s = 10 then map_option (\<lambda>d. d * 86400000) (parseDay s)
      else if length s = 24 then
        (case (parseDay (take 10 s), parseTime (drop 10 s)) of
           (Some d, Some ms) \<Rightarrow> Some (d * 86400000 + ms)
         | _ \<Rightarrow> None)
      else if length s = 27 then
        (case (parseExpandedDay (take 13 s), parseTime (drop 13 s)) of
           (Some d, Some ms) \<Rightarrow>
             if \<bar>d * 86400000 + ms\<bar> \<le> 8640000000000000 then Some (d * 86400000 + ms)
             else None
         | _ \<Rightarrow> None)
      else None)"

definition lowerUnit :: "codeunit \<Rightarrow> jsstring" where
  "lowerUnit c =
     (if 0x41 \<le> c \<and> c \<le> 0x5A then [c + 0x20]
      else if 0xC0 \<le> c \<and> c \<le> 0xDE \<and> c \<noteq> 0xD7 then [c + 0x20]
      else if c = 0x130 then [0x69, 0x307]
      else [c])"

definition hostToLowerCase :: "jsstring \<Rightarrow> jsstring" where
  "hostToLowerCase s = concat (map lowerUnit s)"

definition numGreater :: "jsnum \<Rightarrow> rat \<Rightarrow> bool" where
  "numGreater n k = (case n of Fin q \<Rightarrow> q > k | PosInf \<Rightarrow> True | _ \<Rightarrow> False)"

text \<open>
  The sort of this host is insertion sort, from the right: \<open>a\<close> is put after \<open>b\<close> only when
  the comparator's result on \<open>(a, b)\<close> is positive, and \<open>NaN\<close> counts as zero. It is stable,
  and it orders by a comparator that is a consistent order. (On other comparators the
  engines differ from it and from one another.)
\<close>

fun hostInsert :: "('a \<Rightarrow> 'a \<Rightarrow> error + jsnum) \<Rightarrow> 'a \<Rightarrow> 'a list \<Rightarrow> error + 'a list" where
  "hostInsert cmp x [] = Inr [x]"
| "hostInsert cmp x (y # ys) =
     bindE (cmp x y) (\<lambda>v.
       if numGreater v 0 then bindE (hostInsert cmp x ys) (\<lambda>r. Inr (y # r))
       else Inr (x # y # ys))"

fun hostSort :: "('a \<Rightarrow> 'a \<Rightarrow> error + jsnum) \<Rightarrow> 'a list \<Rightarrow> error + 'a list" where
  "hostSort cmp [] = Inr []"
| "hostSort cmp (x # xs) = bindE (hostSort cmp xs) (hostInsert cmp x)"

text \<open>The start of the day in UTC, of a time value (one of magnitude at most \<open>8.64e15\<close>).\<close>

definition hostLocalMidnight :: "int \<Rightarrow> date" where
  "hostLocalMidnight t =
     (if \<bar>t\<bar> \<le> 8640000000000000 then Some (t - t mod 86400000) else None)"

definition host :: runtime where
  "host = \<lparr>strToNumber = hostStrToNumber,
           numToString = hostNumToString,
           dateParse = hostDateParse,
           localMidnight = hostLocalMidnight,
           toISOString = hostToISOString,
           toLowerCase = hostToLowerCase,
           arraySort = hostSort\<rparr>"

subsection \<open>Sample data\<close>

text \<open>The item of the repository's test, \<^verbatim>\<open>{name: "Milk", category: "dairy", quantity: 2,
  expiresOn: "2030-01-01"}\<close>, with the name, category and quantity left open, and the
  record the host stores for it at \<^verbatim>\<open>2026-11-03T00:00:00.000Z\<close>.\<close>

definition rawItem :: "jsval \<Rightarrow> jsval \<Rightarrow> jsval \<Rightarrow> jsval" where
  "rawItem name category quantity =
     JObj [(str ''name'', name), (str ''category'', category), (str ''quantity'', quantity),
           (str ''expiresOn'', JStr (str ''2030-01-01''))]"

definition storedItem :: "jsstring \<Rightarrow> jsstring \<Rightarrow> jsstring \<Rightarrow> rat \<Rightarrow> obj" where
  "storedItem ident name category quantity =
     [(str ''id'', JStr ident),
      (str ''name'', JStr name),
      (str ''category'', JStr category),
      (str ''quantity'', JNum (Fin quantity)),
      (str ''expiresOn'', JStr (str ''2030-01-01T00:00:00.000Z'')),
      (str ''notes'', JStr []),
      (str ''createdAt'', JStr (str ''2026-11-03T00:00:00.000Z'')),
      (str ''updatedAt'', JStr (str ''2026-11-03T00:00:00.000Z''))]"

definition rawItemWithId :: "jsstring \<Rightarrow> jsval \<Rightarrow> jsval \<Rightarrow> jsval \<Rightarrow> jsval" where
  "rawItemWithId ident name category quantity =
     JObj [(str ''id'', JStr ident), (str ''name'', name), (str ''category'', category),
           (str ''quantity'', quantity), (str ''expiresOn'', JStr (str ''2030-01-01''))]"

definition today :: date where
  "today = Some 1793664000000"

definition tomorrow :: date where
  "tomorrow = Some 1793750400000"

text \<open>A name of 81 characters: 79 times \<^verbatim>\<open>a\<close>, a space, and \<^verbatim>\<open>b\<close>.\<close>

definition longName :: jsstring where
  "longName = replicate 79 0x61 @ [0x20, 0x62]"

text \<open>A store that holds this record, created with two units under the id \<^verbatim>\<open>u0\<close>.\<close>

definition sampleStore :: store where
  "sampleStore =
     \<lparr>items = [storedItem (str ''u0'') (str ''Milk'') (str ''dairy'') 2],
      dataFile = Some [storedItem (str ''u0'') (str ''Milk'') (str ''dairy'') 2]\<rparr>"

definition emptyStore :: store where
  "emptyStore = \<lparr>items = [], dataFile = None\<rparr>"




section \<open>Basic facts\<close>

lemma bindE_Inr_iff: "bindE m f = Inr y \<longleftrightarrow> (\<exists>x. m = Inr x \<and> f x = Inr y)"
  by (cases m) (simp_all add: bindE_def)

lemma bindE_Inl_iff: "bindE m f = Inl e \<longleftrightarrow> m = Inl e \<or> (\<exists>x. m = Inr x \<and> f x = Inl e)"
  by (cases m) (simp_all add: bindE_def)

lemma bindE_simps [simp]: "bindE (Inr x) f = f x" "bindE (Inl e) f = Inl e"
  by (simp_all add: bindE_def)

lemma of_char_nat_less: "(of_char a :: nat) < 256"
proof -
  have "(of_char a :: nat) mod 256 < 256" by simp
  then show ?thesis by (simp only: of_char_mod_256)
qed

lemma unat_of_char: "unat (of_char a :: 16 word) = of_char a"
proof -
  have "unat (of_nat (of_char a) :: 16 word) = of_char a mod 2 ^ 16"
    by (simp only: unat_of_nat len_bit0 len_num1 mult_numeral_1 semiring_norm)
  moreover have "(of_char a :: nat) < 2 ^ 16"
    by (rule less_trans [OF of_char_nat_less]) simp
  ultimately have "unat (of_nat (of_char a) :: 16 word) = of_char a"
    by (simp only: mod_less)
  then show ?thesis by (simp only: of_nat_of_char)
qed

lemma of_char_word16_inj: "inj (of_char :: char \<Rightarrow> 16 word)"
proof (rule injI)
  fix a b :: char
  assume "(of_char a :: 16 word) = of_char b"
  then have "unat (of_char a :: 16 word) = unat (of_char b :: 16 word)" by simp
  then have "(of_char a :: nat) = of_char b" by (simp only: unat_of_char)
  then show "a = b" by simp
qed

lemma str_eq_iff [simp]: "str a = str b \<longleftrightarrow> a = b"
  unfolding str_def by (rule inj_map_eq_map [OF of_char_word16_inj])

lemma str_Nil [simp]: "str [] = []"
  by (simp add: str_def)

lemma str_eq_Nil_iff [simp]: "str a = [] \<longleftrightarrow> a = []" "[] = str a \<longleftrightarrow> a = []"
  by (auto simp: str_def)

lemma decimal_digit: "n < 10 \<Longrightarrow> decimal n = [of_nat (48 + n)]"
  by (subst decimal.simps) simp

lemma decimal_more: "10 \<le> n \<Longrightarrow> decimal n = decimal (n div 10) @ [of_nat (48 + n mod 10)]"
  by (subst decimal.simps) simp

lemma replicate_2: "replicate 2 x = [x, x]"
  by (simp add: numeral_2_eq_2)

lemma length_str [simp]: "length (str s) = length s"
  by (simp add: str_def)

lemma trim_Nil [simp]: "trim [] = []"
  by (simp add: trim_def)

lemma toNumber_JNum [simp]: "toNumber rt (JNum x) = Inr x"
  by (simp add: toNumber_def toPrimitive_def)

lemma newDate_JStr [simp]: "newDate rt (Val (JStr s)) = Inr (dateParse rt s)"
  by (simp add: newDate_def toPrimitive_def)

lemma normalizeString_JStr:
  "normalizeString rt (JStr s) fb n lc =
     Inr (if lc then toLowerCase rt (take n (trim s)) else take n (trim s))"
  by (simp add: normalizeString_def orElse_def nullish_def Let_def)

lemma normalizeString_absent:
  "normalizeString rt JUndefined fb n lc =
     Inr (if lc then toLowerCase rt (take n (trim fb)) else take n (trim fb))"
  by (simp add: normalizeString_def orElse_def nullish_def Let_def)

subsection \<open>Trimming\<close>

lemma trim_id:
  assumes "xs = [] \<or> (\<not> isWhiteSpace (hd xs) \<and> \<not> isWhiteSpace (last xs))"
  shows "trim xs = xs"
proof (cases "xs = []")
  case True then show ?thesis by simp
next
  case False
  with assms have h: "\<not> isWhiteSpace (hd xs)" and l: "\<not> isWhiteSpace (last xs)" by simp_all
  from h have "dropWhile isWhiteSpace xs = xs" by (simp add: dropWhile_eq_self_iff)
  moreover from l False have "dropWhile isWhiteSpace (rev xs) = rev xs"
    by (simp add: dropWhile_eq_self_iff hd_rev)
  ultimately show ?thesis by (simp add: trim_def)
qed

lemma trim_hd: "trim s \<noteq> [] \<Longrightarrow> \<not> isWhiteSpace (hd (trim s))"
proof -
  assume ne: "trim s \<noteq> []"
  let ?a = "dropWhile isWhiteSpace s"
  let ?b = "dropWhile isWhiteSpace (rev ?a)"
  from ne have b: "?b \<noteq> []" by (simp add: trim_def)
  have a: "?a \<noteq> []"
  proof
    assume e: "?a = []"
    show False using b unfolding e by simp
  qed
  have "hd (trim s) = last ?b" using b by (simp add: trim_def hd_rev)
  also have "\<dots> = last (rev ?a)"
  proof -
    obtain ys where eq: "rev ?a = ys @ ?b"
      by (metis takeWhile_dropWhile_id)
    have "last (rev ?a) = last (ys @ ?b)" by (rule arg_cong [OF eq])
    also have "\<dots> = last ?b" by (rule last_appendR [OF b])
    finally show ?thesis by (rule sym)
  qed
  also have "\<dots> = hd ?a" using a by (simp add: last_rev)
  finally show ?thesis using a hd_dropWhile [of isWhiteSpace s] by simp
qed

lemma trim_last: "trim s \<noteq> [] \<Longrightarrow> \<not> isWhiteSpace (last (trim s))"
proof -
  assume ne: "trim s \<noteq> []"
  let ?b = "dropWhile isWhiteSpace (rev (dropWhile isWhiteSpace s))"
  from ne have b: "?b \<noteq> []" by (simp add: trim_def)
  then have "last (trim s) = hd ?b" by (simp add: trim_def last_rev)
  with b hd_dropWhile [of isWhiteSpace "rev (dropWhile isWhiteSpace s)"] show ?thesis by simp
qed

lemma trim_trim [simp]: "trim (trim s) = trim s"
  by (rule trim_id) (use trim_hd trim_last in blast)

lemma hd_take_trim: "take n (trim s) \<noteq> [] \<Longrightarrow> \<not> isWhiteSpace (hd (take n (trim s)))"
  by (cases n) (auto simp: trim_hd)

subsection \<open>The host on some inputs\<close>

lemma host_sel [simp]:
  "strToNumber host = hostStrToNumber" "numToString host = hostNumToString"
  "dateParse host = hostDateParse" "localMidnight host = hostLocalMidnight"
  "toISOString host = hostToISOString" "toLowerCase host = hostToLowerCase"
  "arraySort host = hostSort"
  by (simp_all add: host_def)

lemma hostLocalMidnight_numeral [simp]:
  "hostLocalMidnight (numeral k) =
     (if \<bar>numeral k\<bar> \<le> (8640000000000000 :: int)
      then Some (numeral k - numeral k mod 86400000) else None)"
  by (simp add: hostLocalMidnight_def)

lemma host_parse_2030: "hostDateParse (str ''2030-01-01'') = Some 1893456000000"
  by (simp add: hostDateParse_def parseDay_def parseDigits_def str_def isDigit_def
      digitsValue_def daysInMonth_def daysFromCivil_def)

lemma host_parse_iso_2030: "hostDateParse (str ''2030-01-01T00:00:00.000Z'') = Some 1893456000000"
  by (simp add: hostDateParse_def parseDay_def parseTime_def parseDigits_def str_def isDigit_def
      digitsValue_def daysInMonth_def daysFromCivil_def)


lemma civil_2030: "civilFromDays 21915 = (2030, 1, 1)"
  by code_simp

lemma civil_2026: "civilFromDays 20760 = (2026, 11, 3)"
  by code_simp

lemma host_iso_2030: "hostToISOString 1893456000000 = str ''2030-01-01T00:00:00.000Z''"
  by (simp add: hostToISOString_def civil_2030 padLeft_def decimal_digit decimal_more str_def
      replicate_2)

lemma host_iso_2026: "hostToISOString 1793664000000 = str ''2026-11-03T00:00:00.000Z''"
  by (simp add: hostToISOString_def civil_2026 padLeft_def decimal_digit decimal_more str_def
      replicate_2)

lemma civil_2026_next: "civilFromDays 20761 = (2026, 11, 4)"
  by code_simp

lemma host_iso_2026_next: "hostToISOString 1793750400000 = str ''2026-11-04T00:00:00.000Z''"
  by (simp add: hostToISOString_def civil_2026_next padLeft_def decimal_digit decimal_more str_def
      replicate_2)

subsection \<open>Exceptions and normalisation\<close>

lemma isoString_Inr_iff: "isoString rt d = Inr s \<longleftrightarrow> (\<exists>t. d = Some t \<and> s = toISOString rt t)"
  by (cases d) (auto simp: isoString_def)

lemma startOfDay_Dat:
  "startOfDay rt (Dat d) = Inr (case d of None \<Rightarrow> None | Some t \<Rightarrow> localMidnight rt t)"
  by (simp add: startOfDay_def newDate_def)

text \<open>What a successful normalisation has computed.\<close>

lemma normalizeItem_InrE:
  assumes "normalizeItem rt uuid input now = Inr item"
  obtains props t name qn category m nts n where
    "input = JObj props"
    "newDate rt (Val (getProp props (str ''expiresOn''))) = Inr (Some t)"
    "normalizeString rt (getProp props (str ''name'')) [] 80 False = Inr name"
    "name \<noteq> []"
    "toNumber rt (getProp props (str ''quantity'')) = Inr qn"
    "normalizeString rt (getProp props (str ''category'')) (str ''general'') 40 True = Inr category"
    "localMidnight rt t = Some m"
    "normalizeString rt (getProp props (str ''notes'')) [] 240 False = Inr nts"
    "now = Some n"
    "item = [(str ''id'', orElse (getProp props (str ''id'')) (JStr uuid)),
             (str ''name'', JStr name),
             (str ''category'', JStr category),
             (str ''quantity'', JNum (if isFinite qn
                   then mathMax (Fin 1) (mathMin (Fin 999) (mathRound qn)) else Fin 1)),
             (str ''expiresOn'', JStr (toISOString rt m)),
             (str ''notes'', JStr nts),
             (str ''createdAt'', if nullish (getProp props (str ''createdAt''))
                  then JStr (toISOString rt n) else getProp props (str ''createdAt'')),
             (str ''updatedAt'', JStr (toISOString rt n))]"
proof -
  from assms obtain props where ip: "input = JObj props"
    by (cases input) (simp_all add: normalizeItem_def)
  from assms [unfolded ip]
  have "\<exists>t name qn category m nts n.
    newDate rt (Val (getProp props (str ''expiresOn''))) = Inr (Some t) \<and>
    normalizeString rt (getProp props (str ''name'')) [] 80 False = Inr name \<and>
    name \<noteq> [] \<and>
    toNumber rt (getProp props (str ''quantity'')) = Inr qn \<and>
    normalizeString rt (getProp props (str ''category'')) (str ''general'') 40 True
      = Inr category \<and>
    localMidnight rt t = Some m \<and>
    normalizeString rt (getProp props (str ''notes'')) [] 240 False = Inr nts \<and>
    now = Some n \<and>
    item = [(str ''id'', orElse (getProp props (str ''id'')) (JStr uuid)),
             (str ''name'', JStr name),
             (str ''category'', JStr category),
             (str ''quantity'', JNum (if isFinite qn
                   then mathMax (Fin 1) (mathMin (Fin 999) (mathRound qn)) else Fin 1)),
             (str ''expiresOn'', JStr (toISOString rt m)),
             (str ''notes'', JStr nts),
             (str ''createdAt'', if nullish (getProp props (str ''createdAt''))
                  then JStr (toISOString rt n) else getProp props (str ''createdAt'')),
             (str ''updatedAt'', JStr (toISOString rt n))]"
    by (auto simp: normalizeItem_def bindE_Inr_iff Let_def isoString_Inr_iff startOfDay_Dat
        split: if_splits option.splits)
  with ip that show ?thesis by blast
qed

text \<open>And the other way round.\<close>

lemma normalizeItem_InrI:
  assumes "newDate rt (Val (getProp props (str ''expiresOn''))) = Inr (Some t)"
    and "normalizeString rt (getProp props (str ''name'')) [] 80 False = Inr name"
    and "name \<noteq> []"
    and "toNumber rt (getProp props (str ''quantity'')) = Inr qn"
    and "normalizeString rt (getProp props (str ''category'')) (str ''general'') 40 True
           = Inr category"
    and "localMidnight rt t = Some m"
    and "normalizeString rt (getProp props (str ''notes'')) [] 240 False = Inr nts"
  shows "normalizeItem rt uuid (JObj props) (Some n) =
     Inr [(str ''id'', orElse (getProp props (str ''id'')) (JStr uuid)),
          (str ''name'', JStr name),
          (str ''category'', JStr category),
          (str ''quantity'', JNum (if isFinite qn
                then mathMax (Fin 1) (mathMin (Fin 999) (mathRound qn)) else Fin 1)),
          (str ''expiresOn'', JStr (toISOString rt m)),
          (str ''notes'', JStr nts),
          (str ''createdAt'', if nullish (getProp props (str ''createdAt''))
               then JStr (toISOString rt n) else getProp props (str ''createdAt'')),
          (str ''updatedAt'', JStr (toISOString rt n))]"
  using assms by (simp add: normalizeItem_def startOfDay_Dat isoString_def)

text \<open>The key of a property decides which definition a lookup finds.\<close>

lemma getProp_Nil [simp]: "getProp [] k = JUndefined"
  by (simp add: getProp_def lookup_def)

lemma getProp_snoc [simp]: "getProp (ps @ [(k', v)]) k = (if k = k' then v else getProp ps k)"
  by (simp add: getProp_def lookup_def)

lemma getProp_Cons:
  "getProp ((k', v) # ps) k =
     (case lookup ps k of None \<Rightarrow> if k = k' then v else JUndefined | Some w \<Rightarrow> w)"
  by (auto simp: getProp_def lookup_def map_add_def split: option.splits)

lemma lookup_Nil [simp]: "lookup [] k = None"
  by (simp add: lookup_def)

lemma lookup_Cons:
  "lookup ((k', v) # ps) k =
     (case lookup ps k of None \<Rightarrow> if k = k' then Some v else None | Some w \<Rightarrow> Some w)"
  by (auto simp: lookup_def map_add_def split: option.splits)

lemma lookup_append:
  "lookup (ps @ qs) k = (case lookup qs k of None \<Rightarrow> lookup ps k | Some v \<Rightarrow> Some v)"
  unfolding lookup_def by (simp add: map_add_def)

lemma getProp_append:
  "getProp (ps @ qs) k = (case lookup qs k of None \<Rightarrow> getProp ps k | Some w \<Rightarrow> w)"
  by (auto simp: getProp_def lookup_append split: option.splits)

text \<open>The clamp of \<^verbatim>\<open>normalizeItem\<close> on a finite number.\<close>

lemma clamp_Fin:
  "mathMax (Fin 1) (mathMin (Fin 999) (mathRound (Fin q)))
     = Fin (of_int (max 1 (min 999 (round q))))"
  by (simp add: mathRound_def max_def min_def)

subsection \<open>The host on the sample item\<close>

lemma trim_Milk: "trim (str ''Milk'') = str ''Milk''"
  by (simp add: trim_def str_def isWhiteSpace_def)

lemma trim_Dairy: "trim (str ''Dairy'') = str ''Dairy''"
  by (simp add: trim_def str_def isWhiteSpace_def)

lemma lower_Dairy: "hostToLowerCase (str ''Dairy'') = str ''dairy''"
  by (simp add: hostToLowerCase_def lowerUnit_def str_def)

lemma trim_dairy: "trim (str ''dairy'') = str ''dairy''"
  by (simp add: trim_def str_def isWhiteSpace_def)

lemma lower_dairy: "hostToLowerCase (str ''dairy'') = str ''dairy''"
  by (simp add: hostToLowerCase_def lowerUnit_def str_def)



lemma host_normalize_sample:
  "normalizeItem host u (rawItem (JStr (str ''Milk'')) (JStr (str ''Dairy'')) (JNum (Fin q))) today
     = Inr (storedItem u (str ''Milk'') (str ''dairy'') (of_int (max 1 (min 999 (round q)))))"
  unfolding rawItem_def today_def storedItem_def
  apply (subst normalizeItem_InrI [where t = 1893456000000 and m = 1893456000000
        and name = "str ''Milk''" and category = "str ''dairy''" and nts = "[]" and qn = "Fin q"])
  apply (simp_all add: getProp_Cons lookup_Cons host_parse_2030 normalizeString_JStr
      normalizeString_absent trim_Milk trim_Dairy lower_Dairy host_iso_2030 host_iso_2026
      clamp_Fin isFinite_def orElse_def nullish_def)
  done

lemma host_update_sample:
  "update host (str ''u0'') (JObj [(str ''quantity'', JNum (Fin 3))]) today
     \<lparr>items = storedItem (str ''u0'') (str ''Milk'') (str ''dairy'') 2 # rest, dataFile = f\<rparr>
   = (Inr (Some (storedItem (str ''u0'') (str ''Milk'') (str ''dairy'') 3)),
      \<lparr>items = storedItem (str ''u0'') (str ''Milk'') (str ''dairy'') 3 # rest,
       dataFile = Some (storedItem (str ''u0'') (str ''Milk'') (str ''dairy'') 3 # rest)\<rparr>)"
proof -
  let ?old = "storedItem (str ''u0'') (str ''Milk'') (str ''dairy'') 2"
  have f: "getProp ?old (str ''id'') = JStr (str ''u0'')"
    by (simp add: storedItem_def getProp_Cons lookup_Cons)
  have n: "normalizeItem host []
             (JObj (ownProps (JObj ?old) @ ownProps (JObj [(str ''quantity'', JNum (Fin 3))]) @
                    [(str ''id'', JStr (str ''u0'')),
                     (str ''createdAt'', getProp ?old (str ''createdAt''))])) today
           = Inr (storedItem (str ''u0'') (str ''Milk'') (str ''dairy'') 3)"
    unfolding today_def storedItem_def ownProps_def
    apply (subst normalizeItem_InrI [where t = 1893456000000 and m = 1893456000000
          and name = "str ''Milk''" and category = "str ''dairy''" and nts = "[]" and qn = "Fin 3"])
    apply (simp_all add: getProp_Cons lookup_Cons getProp_append lookup_append host_parse_iso_2030
        normalizeString_JStr trim_Milk trim_dairy lower_dairy host_iso_2030 host_iso_2026
        clamp_Fin isFinite_def orElse_def nullish_def)
    done
  show ?thesis
    by (simp add: update_def f n persist_def)
qed


section \<open>Status of an item\<close>

text \<open>
  C1. For a valid pair of dates (both dates, and the starts of their days, are valid),
  \<^verbatim>\<open>daysUntil\<close> is an integer \<open>d\<close> and \<^verbatim>\<open>itemStatus\<close> is exactly one of \<^verbatim>\<open>expired\<close>,
  \<^verbatim>\<open>expiring\<close>, \<^verbatim>\<open>fresh\<close>: \<^verbatim>\<open>expired\<close> iff \<open>d < 0\<close>, \<^verbatim>\<open>expiring\<close> iff \<open>0 \<le> d \<le> 7\<close>,
  \<^verbatim>\<open>fresh\<close> iff \<open>d > 7\<close>.
\<close>

theorem itemStatus_partition:
  assumes "startOfDay rt now = Inr (Some t)" and "startOfDay rt expiryDate = Inr (Some e)"
  shows "\<exists>d::int. daysUntil rt expiryDate now = Inr (Fin (of_int d)) \<and>
           (itemStatus rt expiryDate now = Inr (str ''expired'') \<longleftrightarrow> d < 0) \<and>
           (itemStatus rt expiryDate now = Inr (str ''expiring'') \<longleftrightarrow> 0 \<le> d \<and> d \<le> 7) \<and>
           (itemStatus rt expiryDate now = Inr (str ''fresh'') \<longleftrightarrow> 7 < d) \<and>
           itemStatus rt expiryDate now \<in>
             {Inr (str ''expired''), Inr (str ''expiring''), Inr (str ''fresh'')}"
proof -
  define d :: int where "d = round ((of_int e - of_int t :: rat) / (24 * 60 * 60 * 1000))"
  have du: "daysUntil rt expiryDate now = Inr (Fin (of_int d))"
    using assms by (simp add: daysUntil_def bindE_def getTime_def mathRound_def d_def)
  have st: "itemStatus rt expiryDate now =
              Inr (if d < 0 then str ''expired''
                   else if d \<le> 7 then str ''expiring'' else str ''fresh'')"
    by (simp add: itemStatus_def du bindE_def numLess_def numLessEq_def)
  show ?thesis
    by (rule exI [of _ d]) (simp add: du st)
qed

theorem itemStatus_partition_witness:
  "startOfDay host (Dat (Some 1793664000000)) = Inr (Some 1793664000000) \<and>
   startOfDay host (Val (JStr (str ''2030-01-01''))) = Inr (Some 1893456000000) \<and>
   (\<exists>d::int. daysUntil host (Val (JStr (str ''2030-01-01''))) (Dat (Some 1793664000000))
                = Inr (Fin (of_int d)) \<and>
      (itemStatus host (Val (JStr (str ''2030-01-01''))) (Dat (Some 1793664000000))
         = Inr (str ''fresh'') \<longleftrightarrow> 7 < d))"
proof -
  have h1: "startOfDay host (Dat (Some 1793664000000)) = Inr (Some 1793664000000)"
    by (simp add: startOfDay_def newDate_def bindE_def)
  have h2: "startOfDay host (Val (JStr (str ''2030-01-01''))) = Inr (Some 1893456000000)"
    by (simp add: startOfDay_def newDate_def toPrimitive_def bindE_def host_parse_2030)
  from itemStatus_partition [OF h1 h2] obtain d :: int where
    "daysUntil host (Val (JStr (str ''2030-01-01''))) (Dat (Some 1793664000000))
       = Inr (Fin (of_int d))"
    "itemStatus host (Val (JStr (str ''2030-01-01''))) (Dat (Some 1793664000000))
         = Inr (str ''fresh'') \<longleftrightarrow> 7 < d"
    by blast
  with h1 h2 show ?thesis by blast
qed

section \<open>Quantity\<close>

text \<open>
  C2. Every input that normalisation accepts is an object. The stored quantity is an
  integer between 1 and 999: an input quantity \<open>0\<close> is stored as \<open>1\<close>, \<open>5000\<close> as \<open>999\<close>,
  and a quantity whose number is not finite (\<open>NaN\<close> for a non-numeric value, or an
  infinity) as \<open>1\<close>.
\<close>

theorem quantity_clamped:
  assumes "normalizeItem rt uuid (JObj props) now = Inr item"
  shows "\<exists>k::int. getProp item (str ''quantity'') = JNum (Fin (of_int k)) \<and> 1 \<le> k \<and> k \<le> 999 \<and>
           (getProp props (str ''quantity'') = JNum (Fin 0) \<longrightarrow> k = 1) \<and>
           (getProp props (str ''quantity'') = JNum (Fin 5000) \<longrightarrow> k = 999) \<and>
           (\<forall>n. toNumber rt (getProp props (str ''quantity'')) = Inr n \<longrightarrow> \<not> isFinite n \<longrightarrow> k = 1)"
proof -
  from assms obtain qn where
    qn: "toNumber rt (getProp props (str ''quantity'')) = Inr qn"
    and q: "getProp item (str ''quantity'') = JNum (if isFinite qn
                   then mathMax (Fin 1) (mathMin (Fin 999) (mathRound qn)) else Fin 1)"
    by (elim normalizeItem_InrE) (simp add: getProp_Cons lookup_Cons)
  show ?thesis
  proof (cases qn)
    case (Fin r)
    show ?thesis
      apply (rule exI [of _ "max 1 (min 999 (round r))"])
      using qn q Fin by (auto simp: clamp_Fin isFinite_def)
  next
    case NaN
    with qn q show ?thesis
      by (intro exI [of _ 1]) (auto simp: isFinite_def)
  next
    case PosInf
    with qn q show ?thesis
      by (intro exI [of _ 1]) (auto simp: isFinite_def)
  next
    case NegInf
    with qn q show ?thesis
      by (intro exI [of _ 1]) (auto simp: isFinite_def)
  qed
qed

theorem quantity_clamped_witness:
  "normalizeItem host (str ''u1'')
     (JObj [(str ''name'', JStr (str ''Milk'')), (str ''category'', JStr (str ''Dairy'')),
            (str ''quantity'', JNum (Fin 5000)),
            (str ''expiresOn'', JStr (str ''2030-01-01''))]) today
     = Inr (storedItem (str ''u1'') (str ''Milk'') (str ''dairy'') 999) \<and>
   getProp (storedItem (str ''u1'') (str ''Milk'') (str ''dairy'') 999) (str ''quantity'')
     = JNum (Fin 999)"
proof -
  have h: "normalizeItem host (str ''u1'')
     (JObj [(str ''name'', JStr (str ''Milk'')), (str ''category'', JStr (str ''Dairy'')),
            (str ''quantity'', JNum (Fin 5000)),
            (str ''expiresOn'', JStr (str ''2030-01-01''))]) today
     = Inr (storedItem (str ''u1'') (str ''Milk'') (str ''dairy'') 999)"
    using host_normalize_sample [of "str ''u1''" 5000] by (simp add: rawItem_def)
  from quantity_clamped [OF h] obtain k :: int where
    "getProp (storedItem (str ''u1'') (str ''Milk'') (str ''dairy'') 999) (str ''quantity'')
       = JNum (Fin (of_int k))"
    and "getProp [(str ''name'', JStr (str ''Milk'')), (str ''category'', JStr (str ''Dairy'')),
            (str ''quantity'', JNum (Fin 5000)),
            (str ''expiresOn'', JStr (str ''2030-01-01''))] (str ''quantity'') = JNum (Fin 5000)
          \<longrightarrow> k = 999"
    by blast
  then have "getProp (storedItem (str ''u1'') (str ''Milk'') (str ''dairy'') 999) (str ''quantity'')
       = JNum (Fin 999)"
    by (simp add: getProp_Cons lookup_Cons)
  with h show ?thesis by simp
qed

section \<open>Lengths of the stored strings\<close>

text \<open>
  \<^verbatim>\<open>normalizeString\<close> never rejects a string for its length: it trims it and cuts it to
  \<open>maxLength\<close> code units (\<open>normalizeString_JStr\<close>). The stored name and notes are within
  their limits. The stored category is the lower case of a string within the limit.
\<close>

lemma normalizeString_length:
  "normalizeString rt v fb n False = Inr s \<Longrightarrow> length s \<le> n"
  by (auto simp: normalizeString_def bindE_Inr_iff Let_def)

lemma normalizeString_lower:
  "normalizeString rt v fb n True = Inr s \<Longrightarrow> \<exists>c. s = toLowerCase rt c \<and> length c \<le> n"
  by (auto simp: normalizeString_def bindE_Inr_iff Let_def)

lemma stored_string_lengths:
  assumes "normalizeItem rt uuid input now = Inr item"
  shows "\<exists>nm c nts. getProp item (str ''name'') = JStr nm \<and> nm \<noteq> [] \<and> length nm \<le> 80 \<and>
           getProp item (str ''category'') = JStr (toLowerCase rt c) \<and> length c \<le> 40 \<and>
           getProp item (str ''notes'') = JStr nts \<and> length nts \<le> 240"
  using assms
  by (elim normalizeItem_InrE)
    (auto simp: getProp_Cons lookup_Cons dest!: normalizeString_length normalizeString_lower)

lemma length_concat_replicate_pair: "length (concat (replicate n [a, b])) = 2 * n"
  by (induction n) simp_all

lemma hostToLowerCase_dotted_I:
  "hostToLowerCase (replicate n 0x130) = concat (replicate n [0x69, 0x307])"
  by (simp add: hostToLowerCase_def lowerUnit_def map_replicate_const)

lemma trim_dotted_I: "trim (replicate 40 0x130) = replicate 40 0x130"
  by (rule trim_id) (simp add: isWhiteSpace_def hd_replicate last_replicate)

text \<open>
  C10 says that the stored category has at most 40 code units. \<^verbatim>\<open>normalizeString\<close> cuts
  the value to 40 code units and converts it to lower case afterwards, and the lower case
  of U+0130 (capital I with dot above) is the two code units U+0069 U+0307: a category of
  forty U+0130 is accepted and stored with 80 code units.
\<close>

theorem category_exceeds_limit:
  "normalizeItem host (str ''u1'')
     (rawItem (JStr (str ''Milk'')) (JStr (replicate 40 0x130)) (JNum (Fin 2))) today
     = Inr (storedItem (str ''u1'') (str ''Milk'') (concat (replicate 40 [0x69, 0x307])) 2) \<and>
   getProp (storedItem (str ''u1'') (str ''Milk'') (concat (replicate 40 [0x69, 0x307])) 2)
     (str ''category'') = JStr (concat (replicate 40 [0x69, 0x307])) \<and>
   length (concat (replicate 40 [0x69, 0x307 :: codeunit])) = 80"
proof -
  have "normalizeItem host (str ''u1'')
     (rawItem (JStr (str ''Milk'')) (JStr (replicate 40 0x130)) (JNum (Fin 2))) today
     = Inr (storedItem (str ''u1'') (str ''Milk'') (concat (replicate 40 [0x69, 0x307])) 2)"
    unfolding rawItem_def today_def storedItem_def
    apply (subst normalizeItem_InrI [where t = 1893456000000 and m = 1893456000000
          and name = "str ''Milk''" and category = "concat (replicate 40 [0x69, 0x307])"
          and nts = "[]" and qn = "Fin 2"])
    apply (simp_all add: getProp_Cons lookup_Cons host_parse_2030 normalizeString_JStr
        normalizeString_absent trim_Milk trim_dotted_I hostToLowerCase_dotted_I
        host_iso_2030 host_iso_2026 clamp_Fin isFinite_def orElse_def nullish_def)
    done
  then show ?thesis
    by (simp add: length_concat_replicate_pair storedItem_def getProp_Cons lookup_Cons)
qed

section \<open>Creating and updating\<close>










lemma newDate_Dat [simp]: "newDate rt (Dat d) = Inr d"
  by (simp add: newDate_def)

lemma daysUntil_JStr:
  "\<exists>d. daysUntil rt (Val (JStr s)) (Dat now) = Inr d"
  by (simp add: daysUntil_def startOfDay_def Let_def)

lemma itemStatus_JStr:
  "\<exists>s. itemStatus rt (Val (JStr e)) (Dat now) = Inr s"
  using daysUntil_JStr [of rt e now] by (auto simp: itemStatus_def)

lemma toApiItem_total:
  assumes "getProp item (str ''expiresOn'') = JStr e"
  shows "\<exists>d s. toApiItem rt item now = Inr (item @ [(str ''daysLeft'', JNum d), (str ''status'', JStr s)])"
  using daysUntil_JStr [of rt e now] itemStatus_JStr [of rt e now] assms
  by (auto simp: toApiItem_def ownProps_def)

lemma normalizeItem_expiresOn:
  "normalizeItem rt uuid raw now = Inr r \<Longrightarrow> \<exists>e. getProp r (str ''expiresOn'') = JStr e"
  by (elim normalizeItem_InrE) (simp add: getProp_Cons lookup_Cons)

text \<open>
  C6. When \<^verbatim>\<open>create\<close> returns the record \<open>r\<close>, the list of the store ends with \<open>r\<close> itself
  (and the data file holds that list), and the API representation of \<open>r\<close> at any time of
  reading is \<open>r\<close> with the two properties \<^verbatim>\<open>daysLeft\<close> and \<^verbatim>\<open>status\<close> added: every other
  property reads as in \<open>r\<close>.
\<close>

theorem create_roundtrip:
  assumes "create rt uuid raw now st = (Inr r, st')"
  shows "list_items st' = list_items st @ [r] \<and> r \<in> set (list_items st') \<and>
         dataFile st' = Some (list_items st') \<and>
         (\<exists>d s. toApiItem rt r now' = Inr (r @ [(str ''daysLeft'', JNum d), (str ''status'', JStr s)])) \<and>
         (\<forall>a k. toApiItem rt r now' = Inr a \<longrightarrow> k \<noteq> str ''daysLeft'' \<longrightarrow> k \<noteq> str ''status'' \<longrightarrow>
                getProp a k = getProp r k)"
proof -
  from assms have n: "normalizeItem rt uuid raw now = Inr r"
    and st': "st' = persist (st\<lparr>items := items st @ [r]\<rparr>)"
    by (auto simp: create_def split: sum.splits)
  from normalizeItem_expiresOn [OF n] obtain e where "getProp r (str ''expiresOn'') = JStr e" ..
  from toApiItem_total [OF this, of rt now'] obtain d s where
    a: "toApiItem rt r now' = Inr (r @ [(str ''daysLeft'', JNum d), (str ''status'', JStr s)])"
    by blast
  have "getProp (r @ [(str ''daysLeft'', JNum d), (str ''status'', JStr s)]) k = getProp r k"
    if "k \<noteq> str ''daysLeft''" "k \<noteq> str ''status''" for k
    using that by (simp add: getProp_append lookup_Cons)
  with a st' show ?thesis
    by (auto simp: list_items_def persist_def)
qed

lemma findIndex_sample: "findIndex (items sampleStore) (str ''u0'') = Some 0"
  by (simp add: sampleStore_def storedItem_def getProp_Cons lookup_Cons)



theorem create_roundtrip_witness:
  "create host (str ''u1'') (rawItem (JStr (str ''Milk'')) (JStr (str ''Dairy'')) (JNum (Fin 2)))
       today sampleStore
     = (Inr (storedItem (str ''u1'') (str ''Milk'') (str ''dairy'') 2),
        \<lparr>items = [storedItem (str ''u0'') (str ''Milk'') (str ''dairy'') 2,
                  storedItem (str ''u1'') (str ''Milk'') (str ''dairy'') 2],
         dataFile = Some [storedItem (str ''u0'') (str ''Milk'') (str ''dairy'') 2,
                  storedItem (str ''u1'') (str ''Milk'') (str ''dairy'') 2]\<rparr>) \<and>
   (\<exists>d s. toApiItem host (storedItem (str ''u1'') (str ''Milk'') (str ''dairy'') 2) today
       = Inr (storedItem (str ''u1'') (str ''Milk'') (str ''dairy'') 2 @
              [(str ''daysLeft'', JNum d), (str ''status'', JStr s)]))"
proof -
  have c: "create host (str ''u1'') (rawItem (JStr (str ''Milk'')) (JStr (str ''Dairy'')) (JNum (Fin 2)))
       today sampleStore
     = (Inr (storedItem (str ''u1'') (str ''Milk'') (str ''dairy'') 2),
        \<lparr>items = [storedItem (str ''u0'') (str ''Milk'') (str ''dairy'') 2,
                  storedItem (str ''u1'') (str ''Milk'') (str ''dairy'') 2],
         dataFile = Some [storedItem (str ''u0'') (str ''Milk'') (str ''dairy'') 2,
                  storedItem (str ''u1'') (str ''Milk'') (str ''dairy'') 2]\<rparr>)"
    using host_normalize_sample [of "str ''u1''" 2]
    by (simp add: create_def sampleStore_def persist_def)
  from create_roundtrip [OF c, of today] c show ?thesis by blast
qed

section \<open>What the store holds\<close>

text \<open>Every item of a store that started from the seed items and went through calls of
  \<^verbatim>\<open>create\<close>, \<^verbatim>\<open>update\<close> and \<^verbatim>\<open>remove\<close> was returned by \<^verbatim>\<open>normalizeItem\<close>. So what holds of
  the records \<^verbatim>\<open>normalizeItem\<close> returns holds of the items of such a store.\<close>

lemma mapE_set:
  "mapE f xs = Inr ys \<Longrightarrow> \<forall>y\<in>set ys. \<exists>x\<in>set xs. f x = Inr y"
proof (induction xs arbitrary: ys)
  case Nil
  then show ?case by simp
next
  case (Cons x xs)
  from Cons.prems obtain y zs where y: "f x = Inr y" and zs: "mapE f xs = Inr zs"
    and ys: "ys = y # zs"
    by (auto simp: bindE_Inr_iff)
  from Cons.IH [OF zs] y ys show ?case by auto
qed

lemma loadSeedItems_holds:
  assumes n: "\<And>uuid raw now r. normalizeItem rt uuid raw now = Inr r \<Longrightarrow> P r"
    and l: "loadSeedItems rt uuids clock seed = Inr xs"
  shows "\<forall>item\<in>set xs. P item"
proof (cases seed)
  case None
  with l show ?thesis by (simp add: loadSeedItems_def)
next
  case (Some parsed)
  show ?thesis
  proof (cases "\<exists>vs. parsed = JArr vs")
    case False
    with l Some have "xs = []" by (cases parsed) (simp_all add: loadSeedItems_def)
    then show ?thesis by simp
  next
    case True
    then obtain vs where vs: "parsed = JArr vs" ..
    show ?thesis
    proof
      fix item assume "item \<in> set xs"
      with mapE_set l Some vs obtain i v where
        "bindE (seedCreatedAt v) (\<lambda>createdAt.
           bindE (newDate rt (Val (orElse createdAt (JNum (Fin (of_int (clock i)))))))
             (\<lambda>now. normalizeItem rt (uuids i) v now)) = Inr item"
        by (fastforce simp: loadSeedItems_def)
      then obtain now where "normalizeItem rt (uuids i) v now = Inr item"
        by (auto simp: bindE_Inr_iff)
      then show "P item" by (rule n)
    qed
  qed
qed

lemma init_holds:
  assumes "\<And>uuid raw now r. normalizeItem rt uuid raw now = Inr r \<Longrightarrow> P r"
    and "init rt uuids clock seed = Inr st"
  shows "\<forall>item\<in>set (items st). P item"
proof -
  from assms(2) obtain xs where l: "loadSeedItems rt uuids clock seed = Inr xs"
    and st: "st = persist \<lparr>items = xs, dataFile = None\<rparr>"
    by (auto simp: init_def bindE_Inr_iff)
  from loadSeedItems_holds [of rt P, OF assms(1) l] st show ?thesis
    by (simp add: persist_def)
qed

lemma applyOp_holds:
  assumes n: "\<And>uuid raw now r. normalizeItem rt uuid raw now = Inr r \<Longrightarrow> P r"
    and st: "\<forall>item\<in>set (items st). P item"
  shows "\<forall>item\<in>set (items (applyOp rt operation st)). P item"
proof (cases operation)
  case (Create uuid raw now)
  show ?thesis
  proof (cases "normalizeItem rt uuid raw now")
    case (Inl e)
    with Create st show ?thesis by (simp add: applyOp_def create_def)
  next
    case (Inr r)
    with n have "P r" .
    with Create Inr st show ?thesis by (simp add: applyOp_def create_def persist_def)
  qed
next
  case (Update ident patch now)
  show ?thesis
  proof (cases "findIndex (items st) ident")
    case None
    with Update st show ?thesis by (simp add: applyOp_def update_def)
  next
    case (Some i)
    show ?thesis
    proof (cases "normalizeItem rt []
                    (JObj (ownProps (JObj (items st ! i)) @ ownProps patch @
                           [(str ''id'', JStr ident),
                            (str ''createdAt'', getProp (items st ! i) (str ''createdAt''))])) now")
      case (Inl e)
      with Update Some st show ?thesis by (simp add: applyOp_def update_def)
    next
      case (Inr r)
      with n have "P r" .
      moreover have "set ((items st)[i := r]) \<subseteq> insert r (set (items st))"
        by (rule set_update_subset_insert)
      ultimately have "\<forall>item\<in>set ((items st)[i := r]). P item" using st by auto
      with Update Some Inr show ?thesis by (simp add: applyOp_def update_def persist_def)
    qed
  qed
next
  case (Remove ident)
  show ?thesis
  proof (cases "findIndex (items st) ident")
    case None
    with Remove st show ?thesis by (simp add: applyOp_def remove_def)
  next
    case (Some i)
    with Remove st show ?thesis
      by (auto simp: applyOp_def remove_def persist_def dest: in_set_takeD in_set_dropD)
  qed
qed

lemma run_holds:
  assumes "\<And>uuid raw now r. normalizeItem rt uuid raw now = Inr r \<Longrightarrow> P r"
    and "\<forall>item\<in>set (items st). P item"
  shows "\<forall>item\<in>set (items (run rt st ops)). P item"
  using assms(2)
proof (induction ops arbitrary: st)
  case Nil
  then show ?case by simp
next
  case (Cons operation rest)
  from applyOp_holds [of rt P, OF assms(1) Cons.prems]
  have "\<forall>item\<in>set (items (applyOp rt operation st)). P item" .
  from Cons.IH [OF this] show ?case by simp
qed

text \<open>A record \<^verbatim>\<open>normalizeItem\<close> returns has a \<^verbatim>\<open>createdAt\<close>; and its \<^verbatim>\<open>expiresOn\<close> is the
  ISO string of the start of a day, which a host that reads such strings back parses to
  that time.\<close>

lemma normalizeItem_createdAt:
  "normalizeItem rt uuid raw now = Inr r \<Longrightarrow> \<not> nullish (getProp r (str ''createdAt''))"
  by (elim normalizeItem_InrE) (simp add: getProp_Cons lookup_Cons nullish_def)


section \<open>Ids and the frame of an update\<close>

lemma findIndex_Some:
  "findIndex xs ident = Some i \<Longrightarrow> i < length xs \<and> getProp (xs ! i) (str ''id'') = JStr ident"
proof (induction xs arbitrary: i)
  case Nil
  then show ?case by simp
next
  case (Cons x xs)
  then show ?case by (cases i) (auto split: if_splits)
qed

lemma normalizeItem_id:
  "normalizeItem rt uuid raw now = Inr r \<Longrightarrow> getProp r (str ''id'') = assignedId uuid raw"
  by (elim normalizeItem_InrE) (simp add: getProp_Cons lookup_Cons assignedId_def)

lemma ids_create:
  "create rt uuid raw now st = (Inr r, st') \<Longrightarrow> ids st' = ids st @ [assignedId uuid raw]"
  by (auto simp: create_def ids_def persist_def normalizeItem_id split: sum.splits)

lemma ids_create_fail:
  "create rt uuid raw now st = (Inl e, st') \<Longrightarrow> st' = st"
  by (auto simp: create_def split: sum.splits)

lemma merged_id:
  "getProp (ps @ qs @ [(str ''id'', JStr ident), (str ''createdAt'', c)]) (str ''id'') = JStr ident"
  by (simp add: getProp_append lookup_append lookup_Cons)

lemma merged_createdAt:
  "getProp (ps @ qs @ [(str ''id'', JStr ident), (str ''createdAt'', c)]) (str ''createdAt'') = c"
  by (simp add: getProp_append lookup_append lookup_Cons)

lemma ids_update: "ids (snd (update rt ident patch now st)) = ids st"
proof (cases "findIndex (items st) ident")
  case None
  then show ?thesis by (simp add: update_def)
next
  case (Some i)
  note fi = findIndex_Some [OF Some]
  show ?thesis
  proof (cases "normalizeItem rt []
                  (JObj (ownProps (JObj (items st ! i)) @ ownProps patch @
                         [(str ''id'', JStr ident),
                          (str ''createdAt'', getProp (items st ! i) (str ''createdAt''))])) now")
    case (Inl e)
    with Some show ?thesis by (simp add: update_def)
  next
    case (Inr merged)
    from normalizeItem_id [OF Inr] have "getProp merged (str ''id'') = JStr ident"
      by (simp add: assignedId_def merged_id orElse_def nullish_def)
    with fi have "(map (\<lambda>item. getProp item (str ''id'')) (items st))[i := getProp merged (str ''id'')]
                    = map (\<lambda>item. getProp item (str ''id'')) (items st)"
      by (simp add: list_update_same_conv)
    with Some Inr show ?thesis
      by (simp add: update_def ids_def persist_def map_update)
  qed
qed

lemma distinct_remove_nth: "distinct xs \<Longrightarrow> distinct (take i xs @ drop (Suc i) xs)"
proof -
  assume d: "distinct xs"
  have "set (take i xs) \<inter> set (drop (Suc i) xs) \<subseteq> set (take i xs) \<inter> set (drop i xs)"
    using set_drop_subset_set_drop [of i "Suc i" xs] by auto
  also have "\<dots> = {}" using d by (rule set_take_disj_set_drop_if_distinct) simp
  finally show ?thesis using d by (simp add: distinct_take distinct_drop)
qed

lemma ids_remove: "distinct (ids st) \<Longrightarrow> distinct (ids (snd (remove ident st)))"
proof (cases "findIndex (items st) ident")
  case None
  then show "distinct (ids st) \<Longrightarrow> ?thesis" by (simp add: remove_def)
next
  case (Some i)
  then have "ids (snd (remove ident st)) = take i (ids st) @ drop (Suc i) (ids st)"
    by (simp add: remove_def ids_def persist_def take_map drop_map)
  then show "distinct (ids st) \<Longrightarrow> ?thesis" by (simp only: distinct_remove_nth)
qed

lemma applyOp_distinct:
  assumes "distinct (ids st)"
    and "case operation of Create uuid raw now \<Rightarrow> assignedId uuid raw \<notin> set (ids st)
         | _ \<Rightarrow> True"
  shows "distinct (ids (applyOp rt operation st))"
proof (cases operation)
  case (Create uuid raw now)
  obtain res st' where c: "create rt uuid raw now st = (res, st')" by (cases "create rt uuid raw now st")
  show ?thesis
  proof (cases res)
    case (Inl e)
    with c have "st' = st" by (auto dest: ids_create_fail)
    with c Create assms show ?thesis by (simp add: applyOp_def)
  next
    case (Inr r)
    with c have "ids st' = ids st @ [assignedId uuid raw]" by (simp add: ids_create)
    with c Create assms show ?thesis by (simp add: applyOp_def)
  qed
next
  case (Update ident patch now)
  with assms show ?thesis by (simp add: applyOp_def ids_update)
next
  case (Remove ident)
  with assms show ?thesis by (simp add: applyOp_def ids_remove)
qed

text \<open>
  C3 says that the ids of the collection stay pairwise distinct under any sequence of
  \<^verbatim>\<open>create\<close>, \<^verbatim>\<open>update\<close> and \<^verbatim>\<open>remove\<close>. \<^verbatim>\<open>create\<close> stores the id its input supplies
  without looking at the collection, so that holds for the sequences in which every
  \<^verbatim>\<open>create\<close> brings an id the collection does not hold at that moment, whether supplied
  or generated: then the ids stay pairwise distinct.
\<close>

theorem ids_stay_distinct:
  assumes "distinct (ids st)" and "freshCreates rt st ops"
  shows "distinct (ids (run rt st ops))"
  using assms
proof (induction ops arbitrary: st)
  case Nil
  then show ?case by simp
next
  case (Cons operation rest)
  from Cons.prems have "distinct (ids (applyOp rt operation st))"
    by (intro applyOp_distinct) simp_all
  moreover from Cons.prems have "freshCreates rt (applyOp rt operation st) rest" by simp
  ultimately show ?case by (simp add: Cons.IH)
qed

lemma host_normalize_sample_id:
  "normalizeItem host u
     (rawItemWithId i (JStr (str ''Milk'')) (JStr (str ''Dairy'')) (JNum (Fin q))) today
     = Inr (storedItem i (str ''Milk'') (str ''dairy'') (of_int (max 1 (min 999 (round q)))))"
  unfolding rawItemWithId_def today_def storedItem_def
  apply (subst normalizeItem_InrI [where t = 1893456000000 and m = 1893456000000
        and name = "str ''Milk''" and category = "str ''dairy''" and nts = "[]" and qn = "Fin q"])
  apply (simp_all add: getProp_Cons lookup_Cons host_parse_2030 normalizeString_JStr
      normalizeString_absent trim_Milk trim_Dairy lower_Dairy host_iso_2030 host_iso_2026
      clamp_Fin isFinite_def orElse_def nullish_def)
  done

text \<open>Two \<^verbatim>\<open>create\<close> calls whose inputs supply the same id leave two items with that id.\<close>

theorem ids_not_invariant:
  "distinct (ids emptyStore) \<and>
   \<not> distinct (ids (run host emptyStore
      [Create (str ''u1'')
         (rawItemWithId (str ''a'') (JStr (str ''Milk'')) (JStr (str ''Dairy'')) (JNum (Fin 2))) today,
       Create (str ''u2'')
         (rawItemWithId (str ''a'') (JStr (str ''Milk'')) (JStr (str ''Dairy'')) (JNum (Fin 2))) today]))"
  by (simp add: emptyStore_def ids_def applyOp_def create_def host_normalize_sample_id persist_def
      storedItem_def getProp_Cons lookup_Cons)

theorem ids_stay_distinct_witness:
  "distinct (ids sampleStore) \<and>
   freshCreates host sampleStore
     [Create (str ''u1'') (rawItem (JStr (str ''Milk'')) (JStr (str ''Dairy'')) (JNum (Fin 2))) today,
      Update (str ''u0'') (JObj [(str ''quantity'', JNum (Fin 3))]) today,
      Remove (str ''u0'')] \<and>
   distinct (ids (run host sampleStore
     [Create (str ''u1'') (rawItem (JStr (str ''Milk'')) (JStr (str ''Dairy'')) (JNum (Fin 2))) today,
      Update (str ''u0'') (JObj [(str ''quantity'', JNum (Fin 3))]) today,
      Remove (str ''u0'')]))"
proof -
  have d: "distinct (ids sampleStore)"
    by (simp add: sampleStore_def ids_def)
  have a: "assignedId (str ''u1'') (rawItem (JStr (str ''Milk'')) (JStr (str ''Dairy'')) (JNum (Fin 2)))
             = JStr (str ''u1'')"
    by (simp add: assignedId_def rawItem_def getProp_Cons lookup_Cons orElse_def nullish_def)
  have f: "freshCreates host sampleStore
     [Create (str ''u1'') (rawItem (JStr (str ''Milk'')) (JStr (str ''Dairy'')) (JNum (Fin 2))) today,
      Update (str ''u0'') (JObj [(str ''quantity'', JNum (Fin 3))]) today,
      Remove (str ''u0'')]"
    by (simp add: a sampleStore_def ids_def storedItem_def getProp_Cons lookup_Cons)
  from ids_stay_distinct [OF d f] d f show ?thesis by blast
qed

lemma merged_other:
  "k \<noteq> str ''id'' \<Longrightarrow> k \<noteq> str ''createdAt'' \<Longrightarrow>
   getProp (ps @ qs @ [(str ''id'', JStr ident), (str ''createdAt'', c)]) k = getProp (ps @ qs) k"
  by (simp add: getProp_append lookup_append lookup_Cons)

text \<open>The update of an item that has a \<^verbatim>\<open>createdAt\<close>.\<close>

lemma update_stored:
  assumes "findIndex (items st) ident = Some i"
    and "update rt ident patch now st = (Inr (Some r), st')"
    and "\<not> nullish (getProp (items st ! i) (str ''createdAt''))"
  shows "getProp r (str ''id'') = getProp (items st ! i) (str ''id'') \<and>
         getProp r (str ''createdAt'') = getProp (items st ! i) (str ''createdAt'') \<and>
         (\<exists>n. now = Some n \<and> getProp r (str ''updatedAt'') = JStr (toISOString rt n)) \<and>
         (\<exists>r0. normalizeItem rt uuid
                  (JObj (ownProps (JObj (items st ! i)) @ ownProps patch)) now = Inr r0 \<and>
               getProp r (str ''name'') = getProp r0 (str ''name'') \<and>
               getProp r (str ''category'') = getProp r0 (str ''category'') \<and>
               getProp r (str ''quantity'') = getProp r0 (str ''quantity'') \<and>
               getProp r (str ''expiresOn'') = getProp r0 (str ''expiresOn'') \<and>
               getProp r (str ''notes'') = getProp r0 (str ''notes'')) \<and>
         items st' = (items st)[i := r] \<and> dataFile st' = Some (items st')"
proof -
  let ?old = "items st ! i"
  let ?P = "ownProps (JObj ?old) @ ownProps patch"
  let ?M = "ownProps (JObj ?old) @ ownProps patch @
              [(str ''id'', JStr ident), (str ''createdAt'', getProp ?old (str ''createdAt''))]"
  from assms(1,2) have n: "normalizeItem rt [] (JObj ?M) now = Inr r"
    and st': "st' = persist (st\<lparr>items := (items st)[i := r]\<rparr>)"
    by (auto simp: update_def split: sum.splits)
  from findIndex_Some [OF assms(1)] have oldid: "getProp ?old (str ''id'') = JStr ident" by simp
  from n obtain t name qn category m nts k where
    c: "newDate rt (Val (getProp ?M (str ''expiresOn''))) = Inr (Some t)"
      "normalizeString rt (getProp ?M (str ''name'')) [] 80 False = Inr name"
      "name \<noteq> []"
      "toNumber rt (getProp ?M (str ''quantity'')) = Inr qn"
      "normalizeString rt (getProp ?M (str ''category'')) (str ''general'') 40 True = Inr category"
      "localMidnight rt t = Some m"
      "normalizeString rt (getProp ?M (str ''notes'')) [] 240 False = Inr nts"
      "now = Some k"
    and r: "r = [(str ''id'', orElse (getProp ?M (str ''id'')) (JStr [])),
             (str ''name'', JStr name),
             (str ''category'', JStr category),
             (str ''quantity'', JNum (if isFinite qn
                   then mathMax (Fin 1) (mathMin (Fin 999) (mathRound qn)) else Fin 1)),
             (str ''expiresOn'', JStr (toISOString rt m)),
             (str ''notes'', JStr nts),
             (str ''createdAt'', if nullish (getProp ?M (str ''createdAt''))
                  then JStr (toISOString rt k) else getProp ?M (str ''createdAt'')),
             (str ''updatedAt'', JStr (toISOString rt k))]"
    by (elim normalizeItem_InrE) simp
  have r0: "normalizeItem rt uuid (JObj ?P) now =
     Inr [(str ''id'', orElse (getProp ?P (str ''id'')) (JStr uuid)),
          (str ''name'', JStr name),
          (str ''category'', JStr category),
          (str ''quantity'', JNum (if isFinite qn
                then mathMax (Fin 1) (mathMin (Fin 999) (mathRound qn)) else Fin 1)),
          (str ''expiresOn'', JStr (toISOString rt m)),
          (str ''notes'', JStr nts),
          (str ''createdAt'', if nullish (getProp ?P (str ''createdAt''))
               then JStr (toISOString rt k) else getProp ?P (str ''createdAt'')),
          (str ''updatedAt'', JStr (toISOString rt k))]"
    unfolding \<open>now = Some k\<close>
    using c(1-7) by (intro normalizeItem_InrI) (simp_all add: merged_other)
  have rid: "getProp r (str ''id'') = JStr ident"
    by (simp add: r getProp_Cons lookup_Cons merged_id orElse_def nullish_def)
  have rc: "getProp r (str ''createdAt'') = getProp ?old (str ''createdAt'')"
    using assms(3) by (simp add: r getProp_Cons lookup_Cons merged_createdAt)
  have ru: "getProp r (str ''updatedAt'') = JStr (toISOString rt k)"
    by (simp add: r getProp_Cons lookup_Cons)
  show ?thesis
    apply (intro conjI)
          apply (simp add: rid oldid)
         apply (rule rc)
        apply (rule exI [of _ k], simp add: ru c(8))
       apply (rule exI, rule conjI, rule r0)
       apply (simp add: r getProp_Cons lookup_Cons)
      apply (simp_all add: st' persist_def)
    done
qed

text \<open>
  C4. Let the collection be one the store has made: it started from the seed items, where
  there was no data file, and went through any calls of \<^verbatim>\<open>create\<close>, \<^verbatim>\<open>update\<close> and
  \<^verbatim>\<open>remove\<close>. Then a successful \<^verbatim>\<open>update(id, patch, now)\<close> of an item of it replaces the
  item by a record with the same \<^verbatim>\<open>id\<close> and \<^verbatim>\<open>createdAt\<close>, with \<^verbatim>\<open>updatedAt\<close> set to \<open>now\<close>,
  and with the name, category, quantity, expiry date and notes that normalising the old
  record merged with the patch gives; the data file is rewritten.
\<close>

theorem update_frame:
  assumes "init rt uuids clock seed = Inr st0"
    and "st = run rt st0 ops"
    and "findIndex (items st) ident = Some i"
    and "update rt ident patch now st = (Inr (Some r), st')"
  shows "getProp r (str ''id'') = getProp (items st ! i) (str ''id'') \<and>
         getProp r (str ''createdAt'') = getProp (items st ! i) (str ''createdAt'') \<and>
         (\<exists>n. now = Some n \<and> getProp r (str ''updatedAt'') = JStr (toISOString rt n)) \<and>
         (\<exists>r0. normalizeItem rt uuid
                  (JObj (ownProps (JObj (items st ! i)) @ ownProps patch)) now = Inr r0 \<and>
               getProp r (str ''name'') = getProp r0 (str ''name'') \<and>
               getProp r (str ''category'') = getProp r0 (str ''category'') \<and>
               getProp r (str ''quantity'') = getProp r0 (str ''quantity'') \<and>
               getProp r (str ''expiresOn'') = getProp r0 (str ''expiresOn'') \<and>
               getProp r (str ''notes'') = getProp r0 (str ''notes'')) \<and>
         items st' = (items st)[i := r] \<and> dataFile st' = Some (items st')"
proof -
  have "\<forall>item\<in>set (items st0). \<not> nullish (getProp item (str ''createdAt''))"
    using normalizeItem_createdAt assms(1) by (rule init_holds)
  with normalizeItem_createdAt
  have "\<forall>item\<in>set (items st). \<not> nullish (getProp item (str ''createdAt''))"
    unfolding assms(2) by (rule run_holds)
  moreover from findIndex_Some [OF assms(3)] have "items st ! i \<in> set (items st)" by simp
  ultimately have "\<not> nullish (getProp (items st ! i) (str ''createdAt''))" by blast
  with assms(3,4) show ?thesis by (rule update_stored)
qed

text \<open>Where there is neither a data file nor a seed file, the store starts empty, and the
  sample store is reached by one \<^verbatim>\<open>create\<close>.\<close>

lemma init_empty: "init rt uuids clock None = Inr \<lparr>items = [], dataFile = Some []\<rparr>"
  by (simp add: init_def loadSeedItems_def persist_def)

lemma sampleStore_reached:
  "run host \<lparr>items = [], dataFile = Some []\<rparr>
     [Create (str ''u0'') (rawItem (JStr (str ''Milk'')) (JStr (str ''Dairy'')) (JNum (Fin 2))) today]
   = sampleStore"
  using host_normalize_sample [of "str ''u0''" 2]
  by (simp add: applyOp_def create_def persist_def sampleStore_def)

theorem update_frame_witness:
  "init host (\<lambda>i. []) (\<lambda>i. 0) None = Inr \<lparr>items = [], dataFile = Some []\<rparr> \<and>
   sampleStore = run host \<lparr>items = [], dataFile = Some []\<rparr>
     [Create (str ''u0'') (rawItem (JStr (str ''Milk'')) (JStr (str ''Dairy'')) (JNum (Fin 2))) today] \<and>
   findIndex (items sampleStore) (str ''u0'') = Some 0 \<and>
   update host (str ''u0'') (JObj [(str ''quantity'', JNum (Fin 3))]) today sampleStore
     = (Inr (Some (storedItem (str ''u0'') (str ''Milk'') (str ''dairy'') 3)),
        \<lparr>items = [storedItem (str ''u0'') (str ''Milk'') (str ''dairy'') 3],
         dataFile = Some [storedItem (str ''u0'') (str ''Milk'') (str ''dairy'') 3]\<rparr>) \<and>
   getProp (storedItem (str ''u0'') (str ''Milk'') (str ''dairy'') 3) (str ''createdAt'')
     = getProp (items sampleStore ! 0) (str ''createdAt'') \<and>
   getProp (storedItem (str ''u0'') (str ''Milk'') (str ''dairy'') 3) (str ''id'')
     = getProp (items sampleStore ! 0) (str ''id'')"
proof -
  have h0: "init host (\<lambda>i. []) (\<lambda>i. 0) None = Inr \<lparr>items = [], dataFile = Some []\<rparr>"
    by (rule init_empty)
  have h1: "sampleStore = run host \<lparr>items = [], dataFile = Some []\<rparr>
     [Create (str ''u0'') (rawItem (JStr (str ''Milk'')) (JStr (str ''Dairy'')) (JNum (Fin 2))) today]"
    by (rule sampleStore_reached [symmetric])
  have h2: "findIndex (items sampleStore) (str ''u0'') = Some 0"
    by (rule findIndex_sample)
  have h3: "update host (str ''u0'') (JObj [(str ''quantity'', JNum (Fin 3))]) today sampleStore
     = (Inr (Some (storedItem (str ''u0'') (str ''Milk'') (str ''dairy'') 3)),
        \<lparr>items = [storedItem (str ''u0'') (str ''Milk'') (str ''dairy'') 3],
         dataFile = Some [storedItem (str ''u0'') (str ''Milk'') (str ''dairy'') 3]\<rparr>)"
    unfolding sampleStore_def by (rule host_update_sample)
  from update_frame [OF h0 h1 h2 h3] h0 h1 h2 h3 show ?thesis by blast
qed

section \<open>The rate limiter\<close>

lemma limiter_opens:
  "buckets ip = None \<or> (\<exists>b. buckets ip = Some b \<and> windowMs \<le> nowMs - windowStartMs b) \<Longrightarrow>
   limiter windowMs maxRequests buckets ip nowMs =
     (\<lparr>allowed = True, remaining = maxRequests - 1\<rparr>,
      buckets(ip \<mapsto> \<lparr>windowStartMs = nowMs, count = 1\<rparr>))"
  by (auto simp: limiter_def)

lemma limiter_denies:
  "buckets ip = Some b \<Longrightarrow> nowMs - windowStartMs b < windowMs \<Longrightarrow> maxRequests \<le> count b \<Longrightarrow>
   limiter windowMs maxRequests buckets ip nowMs = (\<lparr>allowed = False, remaining = 0\<rparr>, buckets)"
  by (simp add: limiter_def)

lemma limiter_counts:
  "buckets ip = Some b \<Longrightarrow> nowMs - windowStartMs b < windowMs \<Longrightarrow> count b < maxRequests \<Longrightarrow>
   limiter windowMs maxRequests buckets ip nowMs =
     (\<lparr>allowed = True, remaining = maxRequests - (count b + 1)\<rparr>,
      buckets(ip \<mapsto> b\<lparr>count := count b + 1\<rparr>))"
  by (simp add: limiter_def)

lemma serve_within_window:
  assumes "buckets ip = Some \<lparr>windowStartMs = t0, count = c\<rparr>"
    and "c + int (length ts) \<le> maxRequests"
    and "\<forall>t\<in>set ts. t - t0 < windowMs"
  shows "serve windowMs maxRequests buckets ip ts =
           (replicate (length ts) True,
            buckets(ip \<mapsto> \<lparr>windowStartMs = t0, count = c + int (length ts)\<rparr>))"
  using assms
proof (induction ts arbitrary: buckets c)
  case Nil
  then have "buckets(ip \<mapsto> \<lparr>windowStartMs = t0, count = c\<rparr>) = buckets"
    by (simp add: fun_upd_idem)
  then show ?case by simp
next
  case (Cons t ts)
  from Cons.prems have lt: "c < maxRequests" and w: "t - t0 < windowMs" by simp_all
  let ?b' = "buckets(ip \<mapsto> \<lparr>windowStartMs = t0, count = c + 1\<rparr>)"
  from limiter_counts [of buckets ip "\<lparr>windowStartMs = t0, count = c\<rparr>" t windowMs maxRequests]
    Cons.prems(1) lt w
  have l: "limiter windowMs maxRequests buckets ip t =
             (\<lparr>allowed = True, remaining = maxRequests - (c + 1)\<rparr>, ?b')"
    by simp
  have "serve windowMs maxRequests ?b' ip ts =
          (replicate (length ts) True,
           ?b'(ip \<mapsto> \<lparr>windowStartMs = t0, count = (c + 1) + int (length ts)\<rparr>))"
    using Cons.prems by (intro Cons.IH) simp_all
  with l show ?case by (simp add: add.assoc fun_eq_iff)
qed

lemma serve_denied:
  assumes "buckets ip = Some b" and "maxRequests \<le> count b"
    and "\<forall>t\<in>set ts. t - windowStartMs b < windowMs"
  shows "serve windowMs maxRequests buckets ip ts = (replicate (length ts) False, buckets)"
  using assms by (induction ts) (simp_all add: limiter_denies)

text \<open>
  C9. Let a request of an address at time \<open>t0\<close> open a window (the address has no bucket,
  or its window started \<open>windowMs\<close> or more before), and let \<open>maxRequests - 1\<close> further
  requests of the address follow less than \<open>windowMs\<close> after \<open>t0\<close>. Then all \<open>maxRequests\<close>
  requests are allowed; from then on every request of the address less than \<open>windowMs\<close>
  after \<open>t0\<close> is denied, answered 429, and changes nothing; and a request at or after
  \<open>t0 + windowMs\<close> is allowed and starts a new window at its own time with the counter
  at 1.
\<close>

theorem fixed_window:
  assumes "buckets ip = None \<or> (\<exists>b. buckets ip = Some b \<and> windowMs \<le> t0 - windowStartMs b)"
    and "int (length ts) + 1 = maxRequests"
    and "\<forall>t\<in>set ts. t - t0 < windowMs"
  shows "\<exists>buckets'.
           serve windowMs maxRequests buckets ip (t0 # ts)
             = (replicate (nat maxRequests) True, buckets') \<and>
           buckets' ip = Some \<lparr>windowStartMs = t0, count = maxRequests\<rparr> \<and>
           (\<forall>us. (\<forall>u\<in>set us. u - t0 < windowMs) \<longrightarrow>
              serve windowMs maxRequests buckets' ip us = (replicate (length us) False, buckets')) \<and>
           (\<forall>t. t - t0 < windowMs \<longrightarrow>
              (\<exists>v. limiter windowMs maxRequests buckets' ip t = (v, buckets') \<and>
                   rateLimitResponse v
                     = Some \<lparr>code = 429,
                             body = JObj [(str ''error'', JStr (str ''Too many requests''))]\<rparr>)) \<and>
           (\<forall>t. windowMs \<le> t - t0 \<longrightarrow>
              limiter windowMs maxRequests buckets' ip t =
                (\<lparr>allowed = True, remaining = maxRequests - 1\<rparr>,
                 buckets'(ip \<mapsto> \<lparr>windowStartMs = t, count = 1\<rparr>)) \<and>
              rateLimitResponse \<lparr>allowed = True, remaining = maxRequests - 1\<rparr> = None)"
proof -
  let ?b1 = "buckets(ip \<mapsto> \<lparr>windowStartMs = t0, count = 1\<rparr>)"
  let ?b' = "?b1(ip \<mapsto> \<lparr>windowStartMs = t0, count = 1 + int (length ts)\<rparr>)"
  have first: "limiter windowMs maxRequests buckets ip t0 =
                 (\<lparr>allowed = True, remaining = maxRequests - 1\<rparr>, ?b1)"
    by (rule limiter_opens) (rule assms(1))
  have rest: "serve windowMs maxRequests ?b1 ip ts = (replicate (length ts) True, ?b')"
    using assms(2,3) by (intro serve_within_window) simp_all
  have n: "nat maxRequests = Suc (length ts)" using assms(2) by simp
  have s: "serve windowMs maxRequests buckets ip (t0 # ts) = (replicate (nat maxRequests) True, ?b')"
    by (simp add: first rest n)
  have b: "?b' ip = Some \<lparr>windowStartMs = t0, count = maxRequests\<rparr>"
    using assms(2) by simp
  have d: "serve windowMs maxRequests ?b' ip us = (replicate (length us) False, ?b')"
    if "\<forall>u\<in>set us. u - t0 < windowMs" for us
    using that assms(2)
    by (simp add: serve_denied [where b = "\<lparr>windowStartMs = t0, count = maxRequests\<rparr>"])
  have o: "limiter windowMs maxRequests ?b' ip t =
             (\<lparr>allowed = True, remaining = maxRequests - 1\<rparr>,
              ?b'(ip \<mapsto> \<lparr>windowStartMs = t, count = 1\<rparr>))"
    if "windowMs \<le> t - t0" for t
    using that by (intro limiter_opens) simp
  have d1: "\<exists>v. limiter windowMs maxRequests ?b' ip t = (v, ?b') \<and>
                   rateLimitResponse v
                     = Some \<lparr>code = 429,
                             body = JObj [(str ''error'', JStr (str ''Too many requests''))]\<rparr>"
    if "t - t0 < windowMs" for t
    using that assms(2)
    by (simp add: rateLimitResponse_def
        limiter_denies [where b = "\<lparr>windowStartMs = t0, count = maxRequests\<rparr>"])
  have o1: "rateLimitResponse \<lparr>allowed = True, remaining = maxRequests - 1\<rparr> = None"
    by (simp add: rateLimitResponse_def)
  from s b d d1 o o1 show ?thesis by blast
qed

theorem fixed_window_witness:
  "\<exists>b. serve 60000 3 Map.empty (str ''10.0.0.1'') [0, 10, 20] = ([True, True, True], b) \<and>
       b (str ''10.0.0.1'') = Some \<lparr>windowStartMs = 0, count = 3\<rparr> \<and>
       serve 60000 3 b (str ''10.0.0.1'') [30, 59999] = ([False, False], b) \<and>
       limiter 60000 3 b (str ''10.0.0.1'') 60000 =
         (\<lparr>allowed = True, remaining = 2\<rparr>,
          b(str ''10.0.0.1'' \<mapsto> \<lparr>windowStartMs = 60000, count = 1\<rparr>))"
proof -
  have h1: "Map.empty (str ''10.0.0.1'') = None \<or>
            (\<exists>b. Map.empty (str ''10.0.0.1'') = Some b \<and> 60000 \<le> 0 - windowStartMs b)"
    by simp
  have h2: "int (length [10, 20 :: int]) + 1 = 3" by simp
  have h3: "\<forall>t\<in>set [10, 20 :: int]. t - 0 < 60000" by simp
  from fixed_window [of Map.empty "str ''10.0.0.1''" 60000 0 "[10, 20]" 3, OF h1 h2 h3]
  obtain b where
    s: "serve 60000 3 Map.empty (str ''10.0.0.1'') [0, 10, 20] = (replicate (nat 3) True, b)"
    and b: "b (str ''10.0.0.1'') = Some \<lparr>windowStartMs = 0, count = 3\<rparr>"
    and d: "\<forall>us. (\<forall>u\<in>set us. u - 0 < 60000) \<longrightarrow>
              serve 60000 3 b (str ''10.0.0.1'') us = (replicate (length us) False, b)"
    and o: "\<forall>t. (60000::int) \<le> t - 0 \<longrightarrow>
              limiter 60000 3 b (str ''10.0.0.1'') t =
                (\<lparr>allowed = True, remaining = 3 - 1\<rparr>,
                 b(str ''10.0.0.1'' \<mapsto> \<lparr>windowStartMs = t, count = 1\<rparr>))"
    by blast
  from s have s': "serve 60000 3 Map.empty (str ''10.0.0.1'') [0, 10, 20] = ([True, True, True], b)"
    by (simp del: serve.simps add: eval_nat_numeral)
  have hb: "\<forall>u\<in>set [30, 59999 :: int]. u - 0 < 60000" by simp
  with d have "serve 60000 3 b (str ''10.0.0.1'') [30, 59999]
                 = (replicate (length [30, 59999 :: int]) False, b)"
    by blast
  then have d': "serve 60000 3 b (str ''10.0.0.1'') [30, 59999] = ([False, False], b)"
    by (simp del: serve.simps)
  from o [rule_format, of 60000]
  have o': "limiter 60000 3 b (str ''10.0.0.1'') 60000 =
         (\<lparr>allowed = True, remaining = 2\<rparr>,
          b(str ''10.0.0.1'' \<mapsto> \<lparr>windowStartMs = 60000, count = 1\<rparr>))"
    by simp
  from s' b d' o' show ?thesis by blast
qed

section \<open>The host keeps the promises\<close>

text \<open>The host of this theory reads back the ISO string of every start of a day, and its
  sort is the stable sort by the key when the comparator is the difference of a key.\<close>

subsection \<open>Days and dates\<close>









subsection \<open>Printing and reading digits\<close>










subsection \<open>The ISO string of a midnight is read back\<close>












subsection \<open>The sort\<close>





section \<open>Listing the items\<close>










subsection \<open>A listing on the host\<close>

















section \<open>Normalising a normalised record\<close>

lemma normalizeString_fixed:
  assumes "trim s = s" and "length s \<le> n" and "lc \<longrightarrow> toLowerCase rt s = s"
  shows "normalizeString rt (JStr s) fb n lc = Inr s"
  using assms by (simp add: normalizeString_JStr)

lemma orElse_not_nullish: "\<not> nullish (orElse v (JStr u))"
  by (simp add: orElse_def nullish_def)

lemma orElse_idem: "\<not> nullish v \<Longrightarrow> orElse v w = v"
  by (simp add: orElse_def)

lemma clamp_range:
  "\<exists>k::int. (if isFinite qn then mathMax (Fin 1) (mathMin (Fin 999) (mathRound qn)) else Fin 1)
        = Fin (of_int k) \<and> 1 \<le> k \<and> k \<le> 999"
proof (cases qn)
  case (Fin q)
  then show ?thesis
    by (intro exI [of _ "max 1 (min 999 (round q))"]) (simp add: isFinite_def clamp_Fin)
qed (auto simp: isFinite_def intro: exI [of _ 1])

lemma clamp_of_int:
  "1 \<le> k \<Longrightarrow> k \<le> 999 \<Longrightarrow>
   mathMax (Fin 1) (mathMin (Fin 999) (mathRound (Fin (of_int k)))) = Fin (of_int k)"
  by (simp add: clamp_Fin)

text \<open>
  C7 says that normalising a record that \<^verbatim>\<open>normalizeItem\<close> returned gives the same record
  but for \<^verbatim>\<open>updatedAt\<close>. That holds for the records whose strings a second normalisation
  leaves alone. Let \<open>r\<close> be returned by \<^verbatim>\<open>normalizeItem\<close>, with its name, category and notes
  free of white space at both ends (\<^verbatim>\<open>trim\<close> does not change them), its category of at
  most 40 code units and its own lower case, and let the host read the stored
  \<^verbatim>\<open>expiresOn\<close> back as the instant it was printed from, that instant being the start
  of its own day. Then normalising \<open>r\<close> at any valid time gives \<open>r\<close> with \<^verbatim>\<open>updatedAt\<close>
  replaced: every other property, \<^verbatim>\<open>id\<close> and \<^verbatim>\<open>createdAt\<close> included, is as in \<open>r\<close>.
\<close>

theorem renormalize_fixed:
  assumes n: "normalizeItem rt uuid input now = Inr r"
    and nm: "getProp r (str ''name'') = JStr nm" "trim nm = nm"
    and cat: "getProp r (str ''category'') = JStr cat" "trim cat = cat" "length cat \<le> 40"
      "toLowerCase rt cat = cat"
    and nts: "getProp r (str ''notes'') = JStr nts" "trim nts = nts"
    and e: "getProp r (str ''expiresOn'') = JStr e" "dateParse rt e = Some m"
      "localMidnight rt m = Some m" "toISOString rt m = e"
  shows "normalizeItem rt uuid' (JObj r) (Some n')
           = Inr (butlast r @ [(str ''updatedAt'', JStr (toISOString rt n'))]) \<and>
         (\<forall>k. k \<noteq> str ''updatedAt'' \<longrightarrow>
            getProp (butlast r @ [(str ''updatedAt'', JStr (toISOString rt n'))]) k = getProp r k)"
proof -
  from n obtain props t name0 qn category0 m0 nts0 k0 where
    name0: "normalizeString rt (getProp props (str ''name'')) [] 80 False = Inr name0" "name0 \<noteq> []"
    and nts0: "normalizeString rt (getProp props (str ''notes'')) [] 240 False = Inr nts0"
    and r: "r = [(str ''id'', orElse (getProp props (str ''id'')) (JStr uuid)),
             (str ''name'', JStr name0),
             (str ''category'', JStr category0),
             (str ''quantity'', JNum (if isFinite qn
                   then mathMax (Fin 1) (mathMin (Fin 999) (mathRound qn)) else Fin 1)),
             (str ''expiresOn'', JStr (toISOString rt m0)),
             (str ''notes'', JStr nts0),
             (str ''createdAt'', if nullish (getProp props (str ''createdAt''))
                  then JStr (toISOString rt k0) else getProp props (str ''createdAt'')),
             (str ''updatedAt'', JStr (toISOString rt k0))]"
    by (elim normalizeItem_InrE) blast
  let ?id = "orElse (getProp props (str ''id'')) (JStr uuid)"
  let ?q = "if isFinite qn then mathMax (Fin 1) (mathMin (Fin 999) (mathRound qn)) else Fin 1"
  let ?c = "if nullish (getProp props (str ''createdAt''))
                  then JStr (toISOString rt k0) else getProp props (str ''createdAt'')"
  from clamp_range [of qn] obtain k :: int where k: "?q = Fin (of_int k)" "1 \<le> k" "k \<le> 999"
    by blast
  have g: "getProp r (str ''id'') = ?id" "getProp r (str ''name'') = JStr name0"
    "getProp r (str ''category'') = JStr category0" "getProp r (str ''quantity'') = JNum ?q"
    "getProp r (str ''expiresOn'') = JStr (toISOString rt m0)"
    "getProp r (str ''notes'') = JStr nts0" "getProp r (str ''createdAt'') = ?c"
    by (simp_all add: r getProp_Cons lookup_Cons)
  from g nm cat nts e have eqs: "name0 = nm" "category0 = cat" "nts0 = nts" "toISOString rt m0 = e"
    by simp_all
  have l1: "length nm \<le> 80" using normalizeString_length [OF name0(1)] eqs by simp
  have l2: "length nts \<le> 240" using normalizeString_length [OF nts0] eqs by simp
  have cnn: "\<not> nullish ?c" by (simp add: nullish_def)
  have again: "normalizeItem rt uuid' (JObj r) (Some n') =
     Inr [(str ''id'', orElse (getProp r (str ''id'')) (JStr uuid')),
          (str ''name'', JStr nm),
          (str ''category'', JStr cat),
          (str ''quantity'', JNum (if isFinite (Fin (of_int k))
                then mathMax (Fin 1) (mathMin (Fin 999) (mathRound (Fin (of_int k)))) else Fin 1)),
          (str ''expiresOn'', JStr (toISOString rt m)),
          (str ''notes'', JStr nts),
          (str ''createdAt'', if nullish (getProp r (str ''createdAt''))
               then JStr (toISOString rt n') else getProp r (str ''createdAt'')),
          (str ''updatedAt'', JStr (toISOString rt n'))]"
  proof (rule normalizeItem_InrI [where t = m])
    show "newDate rt (Val (getProp r (str ''expiresOn''))) = Inr (Some m)"
      using e by simp
    show "normalizeString rt (getProp r (str ''name'')) [] 80 False = Inr nm"
      using nm l1 by (simp add: normalizeString_fixed)
    show "nm \<noteq> []" using name0(2) eqs by simp
    show "toNumber rt (getProp r (str ''quantity'')) = Inr (Fin (of_int k))"
      using g k by simp
    show "normalizeString rt (getProp r (str ''category'')) (str ''general'') 40 True = Inr cat"
      using cat by (simp add: normalizeString_fixed)
    show "localMidnight rt m = Some m" by (rule e)
    show "normalizeString rt (getProp r (str ''notes'')) [] 240 False = Inr nts"
      using nts l2 by (simp add: normalizeString_fixed)
  qed
  have i1: "orElse (getProp r (str ''id'')) (JStr uuid') = ?id"
    by (simp add: g orElse_idem orElse_not_nullish)
  have i2: "(if isFinite (Fin (of_int k))
                then mathMax (Fin 1) (mathMin (Fin 999) (mathRound (Fin (of_int k)))) else Fin 1)
              = ?q"
    using k by (simp add: isFinite_def clamp_of_int)
  have i3: "(if nullish (getProp r (str ''createdAt''))
               then JStr (toISOString rt n') else getProp r (str ''createdAt'')) = ?c"
    using cnn by (simp add: g)
  have bl: "butlast r = [(str ''id'', ?id),
             (str ''name'', JStr name0),
             (str ''category'', JStr category0),
             (str ''quantity'', JNum ?q),
             (str ''expiresOn'', JStr (toISOString rt m0)),
             (str ''notes'', JStr nts0),
             (str ''createdAt'', ?c)]"
    by (simp add: r)
  have same: "[(str ''id'', orElse (getProp r (str ''id'')) (JStr uuid')),
          (str ''name'', JStr nm),
          (str ''category'', JStr cat),
          (str ''quantity'', JNum (if isFinite (Fin (of_int k))
                then mathMax (Fin 1) (mathMin (Fin 999) (mathRound (Fin (of_int k)))) else Fin 1)),
          (str ''expiresOn'', JStr (toISOString rt m)),
          (str ''notes'', JStr nts),
          (str ''createdAt'', if nullish (getProp r (str ''createdAt''))
               then JStr (toISOString rt n') else getProp r (str ''createdAt'')),
          (str ''updatedAt'', JStr (toISOString rt n'))]
        = butlast r @ [(str ''updatedAt'', JStr (toISOString rt n'))]"
    unfolding i1 i2 i3 bl using eqs e(4) by simp
  have frame: "getProp (butlast r @ [(str ''updatedAt'', JStr (toISOString rt n'))]) k'
                 = getProp r k'" if "k' \<noteq> str ''updatedAt''" for k'
    using that by (simp add: r getProp_Cons lookup_Cons)
  from again same frame show ?thesis by simp
qed

lemma trim_snoc_space:
  assumes "isWhiteSpace w"
  shows "trim (xs @ [w]) = trim xs"
proof (cases "\<forall>x\<in>set xs. isWhiteSpace x")
  case True
  with assms show ?thesis by (auto simp: trim_def dest: set_dropWhileD)
next
  case False
  then have "dropWhile isWhiteSpace (xs @ [w]) = dropWhile isWhiteSpace xs @ [w]"
    by (auto simp: dropWhile_append)
  with assms show ?thesis by (simp add: trim_def)
qed

lemma trim_as: "trim (replicate 79 0x61) = replicate 79 0x61"
  by (rule trim_id) (simp add: isWhiteSpace_def hd_replicate last_replicate)

lemma trim_longName: "trim longName = longName"
  unfolding longName_def by (rule trim_id) (simp add: isWhiteSpace_def hd_append)

lemma take_longName: "take 80 longName = replicate 79 0x61 @ [0x20]"
  by (simp add: longName_def)

lemma trim_cut_name: "trim (replicate 79 0x61 @ [0x20]) = replicate 79 0x61"
  by (simp add: trim_snoc_space trim_as isWhiteSpace_def)

lemma host_normalize_named:
  assumes "take 80 (trim nm) = nm'" and "nm' \<noteq> []"
  shows "normalizeItem host u (rawItem (JStr nm) (JStr (str ''Dairy'')) (JNum (Fin q))) today
     = Inr (storedItem u nm' (str ''dairy'') (of_int (max 1 (min 999 (round q)))))"
  unfolding rawItem_def today_def storedItem_def
  apply (subst normalizeItem_InrI [where t = 1893456000000 and m = 1893456000000
        and name = nm' and category = "str ''dairy''" and nts = "[]" and qn = "Fin q"])
  using assms
  apply (simp_all add: getProp_Cons lookup_Cons host_parse_2030 normalizeString_JStr
      normalizeString_absent trim_Dairy lower_Dairy host_iso_2030 host_iso_2026
      clamp_Fin isFinite_def orElse_def nullish_def)
  done

lemma host_normalize_stored:
  assumes "take 80 (trim nm) = nm'" and "nm' \<noteq> []"
  shows "normalizeItem host u (JObj (storedItem i nm (str ''dairy'') 2)) tomorrow
     = Inr (butlast (storedItem i nm' (str ''dairy'') 2) @
            [(str ''updatedAt'', JStr (str ''2026-11-04T00:00:00.000Z''))])"
  unfolding tomorrow_def storedItem_def
  apply (subst normalizeItem_InrI [where t = 1893456000000 and m = 1893456000000
        and name = nm' and category = "str ''dairy''" and nts = "[]" and qn = "Fin 2"])
  using assms
  apply (simp_all add: getProp_Cons lookup_Cons host_parse_iso_2030 normalizeString_JStr
      trim_dairy lower_dairy host_iso_2030 host_iso_2026_next
      clamp_Fin isFinite_def orElse_def nullish_def)
  done

text \<open>
  \<^verbatim>\<open>normalizeString\<close> trims first and cuts afterwards, so a value that is cut right
  after a white-space character is stored with that character at its end, and the next
  normalisation trims it away: a name of 79 times \<^verbatim>\<open>a\<close>, a space and \<^verbatim>\<open>b\<close> is stored as
  79 times \<^verbatim>\<open>a\<close> and a space, and normalising that record again gives the name of 79
  times \<^verbatim>\<open>a\<close>.
\<close>

theorem renormalize_changes_name:
  "normalizeItem host (str ''u1'') (rawItem (JStr longName) (JStr (str ''Dairy'')) (JNum (Fin 2))) today
     = Inr (storedItem (str ''u1'') (replicate 79 0x61 @ [0x20]) (str ''dairy'') 2) \<and>
   normalizeItem host (str ''u2'')
       (JObj (storedItem (str ''u1'') (replicate 79 0x61 @ [0x20]) (str ''dairy'') 2)) tomorrow
     = Inr (butlast (storedItem (str ''u1'') (replicate 79 0x61) (str ''dairy'') 2) @
            [(str ''updatedAt'', JStr (str ''2026-11-04T00:00:00.000Z''))]) \<and>
   getProp (storedItem (str ''u1'') (replicate 79 0x61 @ [0x20]) (str ''dairy'') 2) (str ''name'')
     = JStr (replicate 79 0x61 @ [0x20]) \<and>
   getProp (butlast (storedItem (str ''u1'') (replicate 79 0x61) (str ''dairy'') 2) @
            [(str ''updatedAt'', JStr (str ''2026-11-04T00:00:00.000Z''))]) (str ''name'')
     = JStr (replicate 79 0x61) \<and>
   replicate 79 0x61 @ [0x20] \<noteq> (replicate 79 0x61 :: jsstring)"
proof -
  have a: "normalizeItem host (str ''u1'')
             (rawItem (JStr longName) (JStr (str ''Dairy'')) (JNum (Fin 2))) today
     = Inr (storedItem (str ''u1'') (replicate 79 0x61 @ [0x20]) (str ''dairy'') 2)"
    using host_normalize_named [of longName "replicate 79 0x61 @ [0x20]" "str ''u1''" 2]
    by (simp add: trim_longName take_longName)
  have b: "normalizeItem host (str ''u2'')
       (JObj (storedItem (str ''u1'') (replicate 79 0x61 @ [0x20]) (str ''dairy'') 2)) tomorrow
     = Inr (butlast (storedItem (str ''u1'') (replicate 79 0x61) (str ''dairy'') 2) @
            [(str ''updatedAt'', JStr (str ''2026-11-04T00:00:00.000Z''))])"
    by (rule host_normalize_stored) (simp_all add: trim_cut_name)
  have c: "getProp (storedItem (str ''u1'') (replicate 79 0x61 @ [0x20]) (str ''dairy'') 2)
             (str ''name'') = JStr (replicate 79 0x61 @ [0x20])"
    by (simp add: storedItem_def getProp_Cons lookup_Cons)
  have d: "getProp (butlast (storedItem (str ''u1'') (replicate 79 0x61) (str ''dairy'') 2) @
            [(str ''updatedAt'', JStr (str ''2026-11-04T00:00:00.000Z''))]) (str ''name'')
     = JStr (replicate 79 0x61)"
    by (simp add: storedItem_def getProp_Cons lookup_Cons)
  from a b c d show ?thesis by simp
qed

theorem renormalize_fixed_witness:
  "normalizeItem host (str ''u1'')
     (rawItem (JStr (str ''Milk'')) (JStr (str ''Dairy'')) (JNum (Fin 2))) today
     = Inr (storedItem (str ''u1'') (str ''Milk'') (str ''dairy'') 2) \<and>
   normalizeItem host (str ''u2'') (JObj (storedItem (str ''u1'') (str ''Milk'') (str ''dairy'') 2))
       tomorrow
     = Inr (butlast (storedItem (str ''u1'') (str ''Milk'') (str ''dairy'') 2) @
            [(str ''updatedAt'', JStr (hostToISOString 1793750400000))])"
proof -
  let ?r = "storedItem (str ''u1'') (str ''Milk'') (str ''dairy'') 2"
  have n: "normalizeItem host (str ''u1'')
     (rawItem (JStr (str ''Milk'')) (JStr (str ''Dairy'')) (JNum (Fin 2))) today = Inr ?r"
    using host_normalize_sample [of "str ''u1''" 2] by simp
  have g: "getProp ?r (str ''name'') = JStr (str ''Milk'')"
    "getProp ?r (str ''category'') = JStr (str ''dairy'')"
    "getProp ?r (str ''notes'') = JStr []"
    "getProp ?r (str ''expiresOn'') = JStr (str ''2030-01-01T00:00:00.000Z'')"
    by (simp_all add: storedItem_def getProp_Cons lookup_Cons)
  have l: "length (str ''dairy'') \<le> 40" by simp
  have lc: "toLowerCase host (str ''dairy'') = str ''dairy''" by (simp add: lower_dairy)
  have p: "dateParse host (str ''2030-01-01T00:00:00.000Z'') = Some 1893456000000"
    by (simp add: host_parse_iso_2030)
  have lm: "localMidnight host 1893456000000 = Some 1893456000000" by simp
  have iso: "toISOString host 1893456000000 = str ''2030-01-01T00:00:00.000Z''"
    by (simp add: host_iso_2030)
  from renormalize_fixed [OF n g(1) trim_Milk g(2) trim_dairy l lc g(3) trim_Nil g(4) p lm iso,
      of "str ''u2''" 1793750400000]
  have "normalizeItem host (str ''u2'') (JObj ?r) (Some 1793750400000)
     = Inr (butlast ?r @ [(str ''updatedAt'', JStr (toISOString host 1793750400000))])"
    by blast
  with n show ?thesis by (simp add: tomorrow_def)
qed

end
